theory Spec2Isabelle
  imports Complex_Main "HOL-Library.Word"
begin

section \<open>Shared types\<close>

text \<open>Go's \<open>int64\<close>. Depths are only copied and compared for equality here.\<close>

type_synonym int64 = "64 word"

text \<open>
  A Go \<open>map[string]V\<close> is an association list read with \<open>map_of\<close>. Go leaves the
  iteration order of a map unspecified; the model iterates in list order.
\<close>

type_synonym mapStrInt = "(string \<times> int64) list"

section \<open>internal/timeseries/mapdiff.go\<close>

subsection \<open>mapDiff\<close>

text \<open>\<open>mapDiff.save\<close>: the snapshot becomes a copy of the new map.\<close>

definition save :: "mapStrInt \<Rightarrow> mapStrInt" where
  "save newMap = newMap"

text \<open>
  \<open>mapDiff.diffAtKey(pool, newMap)\<close>: the first argument is the receiver's snapshot.
  Returns \<open>(hasDiff, newValue)\<close>.
\<close>

definition diffAtKey :: "mapStrInt \<Rightarrow> string \<Rightarrow> mapStrInt \<Rightarrow> bool \<times> int64" where
  "diffAtKey snapshot pool newMap =
     (case map_of newMap pool of
        Some newV \<Rightarrow>
          (case map_of snapshot pool of
             None \<Rightarrow> (True, newV)
           | Some oldV \<Rightarrow> (oldV \<noteq> newV, newV))
      | None \<Rightarrow>
          (case map_of snapshot pool of
             None \<Rightarrow> (False, 0)
           | Some oldV \<Rightarrow> (True, 0)))"

text \<open>
  \<open>mapDiff.diff\<close>, the sibling of \<open>diffAtKey\<close> over whole maps: the values of the new
  map that differ from the snapshot, and 0 for a key that is gone from the new map when
  its old value was not 0. (The Go version takes a map of pointers; the pointers are
  only dereferenced.) The result is a map, read with \<open>map_of\<close>.
\<close>

definition diff :: "mapStrInt \<Rightarrow> mapStrInt \<Rightarrow> (string \<rightharpoonup> int64)" where
  "diff snapshot newMap =
     (\<lambda>k. case map_of newMap k of
            Some v \<Rightarrow>
              (case map_of snapshot k of
                 None \<Rightarrow> Some v
               | Some oldv \<Rightarrow> if oldv \<noteq> v then Some v else None)
          | None \<Rightarrow>
              (case map_of snapshot k of
                 None \<Rightarrow> None
               | Some oldv \<Rightarrow> if oldv \<noteq> 0 then Some 0 else None))"

subsection \<open>poolIdMap\<close>

type_synonym poolIdMap = "(string \<times> nat) list"

text \<open>\<open>poolIdMap.getId\<close>: the id of a known pool, or a fresh one (the size of the map).\<close>

definition getId :: "poolIdMap \<Rightarrow> string \<Rightarrow> nat \<times> poolIdMap" where
  "getId pim poolName =
     (case map_of pim poolName of
        Some i \<Rightarrow> (i, pim)
      | None \<Rightarrow> (length pim, pim @ [(poolName, length pim)]))"

subsection \<open>snapshotManager\<close>

record snapshotManager =
  assetE8DepthSnapshot :: mapStrInt
  runeE8DepthSnapshot :: mapStrInt
  snapshotHeight :: int64

text \<open>A row of \<open>aggregate_states\<close>: height, pool, asset depth, rune depth.\<close>

type_synonym depth_row = "int64 \<times> string \<times> int64 \<times> int64"

text \<open>A row of \<open>aggregate_id_states\<close>: height, pool id, asset depth, rune depth.\<close>

type_synonym depth_id_row = "int64 \<times> nat \<times> int64 \<times> int64"

text \<open>
  What the database answers to an \<open>INSERT\<close>: \<open>DBExec\<close> fails, or \<open>RowsAffected\<close>
  fails, or the number of rows affected.
\<close>

datatype exec_result = ExecFailed string | RowsAffectedFailed string | RowsAffected int

text \<open>
  The statements handed to \<open>DBExec\<close>, with their values. The last one is the
  \<open>block_log\<close> insert of \<open>CommitBlock\<close>: height, timestamp, hash, agg\_state.
\<close>

datatype insert_query =
    InsertAggregateStates "depth_row list"
  | InsertAggregateIdStates "depth_id_row list"
  | InsertBlockLog int64 int64 "8 word list" "8 word list"

datatype update_error =
    ErrSavingDepths int64 string
  | ErrSavingDepthsResults int64 string
  | ErrNotAllSaved int64 int nat
  | Err2SavingDepths int64 string
  | Err2SavingDepthsResults int64 string
  | Err2NotAllSaved int64 nat int

text \<open>The set of pool names of the four maps, in the order first seen.\<close>

definition poolNames :: "mapStrInt \<Rightarrow> mapStrInt \<Rightarrow> snapshotManager \<Rightarrow> string list" where
  "poolNames assetE8DepthPerPool runeE8DepthPerPool sm =
     remdups (map fst assetE8DepthPerPool @ map fst runeE8DepthPerPool
              @ map fst (assetE8DepthSnapshot sm) @ map fst (runeE8DepthSnapshot sm))"

text \<open>
  The loop of \<open>update\<close> over the pool names: one row in each of the two inserts for a
  pool whose asset or rune depth has a difference.
\<close>

fun collectRows ::
  "snapshotManager \<Rightarrow> int64 \<Rightarrow> mapStrInt \<Rightarrow> mapStrInt \<Rightarrow> string list \<Rightarrow> poolIdMap
   \<Rightarrow> depth_row list \<times> depth_id_row list \<times> poolIdMap" where
  "collectRows sm height a r [] pim = ([], [], pim)"
| "collectRows sm height a r (pool # pools) pim =
     (let (assetDiff, assetValue) = diffAtKey (assetE8DepthSnapshot sm) pool a;
          (runeDiff, runeValue) = diffAtKey (runeE8DepthSnapshot sm) pool r
      in if assetDiff \<or> runeDiff then
           (let (poolId, pim') = getId pim pool;
                (rows, rows2, pim'') = collectRows sm height a r pools pim'
            in ((height, pool, assetValue, runeValue) # rows,
                (height, poolId, assetValue, runeValue) # rows2, pim''))
         else collectRows sm height a r pools pim)"

text \<open>
  \<open>snapshotManager.update\<close>. \<open>DBExec\<close> is the SQL client, a parameter as in the source.
  Returns the error (if any), the manager and the pool id map as they are left.
  The log lines are left out: they do not change what is returned or stored.
\<close>

definition update ::
  "(insert_query \<Rightarrow> exec_result) \<Rightarrow> snapshotManager \<Rightarrow> poolIdMap \<Rightarrow> int64
   \<Rightarrow> mapStrInt \<Rightarrow> mapStrInt \<Rightarrow> update_error option \<times> snapshotManager \<times> poolIdMap" where
  "update DBExec sm pim height assetE8DepthPerPool runeE8DepthPerPool =
     (let (rows, rows2, pim') =
            collectRows sm height assetE8DepthPerPool runeE8DepthPerPool
              (poolNames assetE8DepthPerPool runeE8DepthPerPool sm) pim;
          sm' = \<lparr> assetE8DepthSnapshot = save assetE8DepthPerPool,
                  runeE8DepthSnapshot = save runeE8DepthPerPool,
                  snapshotHeight = height \<rparr>;
          diffNum = length rows
      in if diffNum = 0 then (None, sm', pim')
         else
           (case DBExec (InsertAggregateStates rows) of
              ExecFailed e \<Rightarrow> (Some (ErrSavingDepths height e), sm', pim')
            | RowsAffectedFailed e \<Rightarrow> (Some (ErrSavingDepthsResults height e), sm', pim')
            | RowsAffected n \<Rightarrow>
                if n \<noteq> int diffNum then (Some (ErrNotAllSaved height n diffNum), sm', pim')
                else
                  (case DBExec (InsertAggregateIdStates rows2) of
                     ExecFailed e \<Rightarrow> (Some (Err2SavingDepths height e), sm', pim')
                   | RowsAffectedFailed e \<Rightarrow> (Some (Err2SavingDepthsResults height e), sm', pim')
                   | RowsAffected n2 \<Rightarrow>
                       if n2 \<noteq> int diffNum then (Some (Err2NotAllSaved height diffNum n2), sm', pim')
                       else (None, sm', pim'))))"

text \<open>The rows \<open>update\<close> puts into the \<open>aggregate_states\<close> insert.\<close>

definition emittedRows ::
  "snapshotManager \<Rightarrow> poolIdMap \<Rightarrow> int64 \<Rightarrow> mapStrInt \<Rightarrow> mapStrInt \<Rightarrow> depth_row list" where
  "emittedRows sm pim height a r = fst (collectRows sm height a r (poolNames a r sm) pim)"

text \<open>The rows \<open>update\<close> puts into the \<open>aggregate_id_states\<close> insert.\<close>

definition emittedIdRows ::
  "snapshotManager \<Rightarrow> poolIdMap \<Rightarrow> int64 \<Rightarrow> mapStrInt \<Rightarrow> mapStrInt \<Rightarrow> depth_id_row list" where
  "emittedIdRows sm pim height a r =
     fst (snd (collectRows sm height a r (poolNames a r sm) pim))"

section \<open>Time and the SQL client\<close>

text \<open>
  A Go \<open>time.Time\<close> is modelled by its instant, in nanoseconds since the zero time
  (January 1, year 1, 00:00 UTC); the times here carry no monotonic clock reading, so
  \<open>Before\<close> compares instants. \<open>UnixNano\<close> is the offset to the Unix epoch,
  wrapping into an \<open>int64\<close>.
\<close>

type_synonym time = int

definition IsZero :: "time \<Rightarrow> bool" where
  "IsZero t = (t = 0)"

definition Before :: "time \<Rightarrow> time \<Rightarrow> bool" where
  "Before t u = (t < u)"

definition unixToInternal :: int where
  "unixToInternal = (1969 * 365 + 1969 div 4 - 1969 div 100 + 1969 div 400) * 86400"

definition UnixNano :: "time \<Rightarrow> int64" where
  "UnixNano t = word_of_int (t - unixToInternal * 1000000000)"

datatype arg = ArgInt int64 | ArgStr string

text \<open>A query as handed to \<open>DBQuery\<close>: the SQL text and its arguments.\<close>

type_synonym query = "string \<times> arg list"

text \<open>
  What \<open>DBQuery\<close> answers: an error, or rows. The rows are what \<open>rows.Next\<close> and
  \<open>rows.Scan\<close> will see, one entry per row (a scan error, or the columns), and the
  final \<open>rows.Err()\<close>.
\<close>

type_synonym rows = "(string + string list) list \<times> string option"

type_synonym dbquery = "query \<Rightarrow> string + rows"

datatype ts_error =
    errBeyondLast
  | DBErr string
  | Wrapped string string

text \<open>A Go call either panics or returns its results and its error.\<close>

datatype 'a go = Panic | Return 'a "ts_error option"

text \<open>\<open>rows.Scan\<close> into one and into two string variables.\<close>

definition scan1 :: "string + string list \<Rightarrow> string + string" where
  "scan1 r = (case r of Inl e \<Rightarrow> Inl e
              | Inr cols \<Rightarrow> (case cols of [c] \<Rightarrow> Inr c | _ \<Rightarrow> Inl ''sql: wrong number of columns''))"

definition scan2 :: "string + string list \<Rightarrow> string + string \<times> string" where
  "scan2 r = (case r of Inl e \<Rightarrow> Inl e
              | Inr cols \<Rightarrow> (case cols of [c, d] \<Rightarrow> Inr (c, d) | _ \<Rightarrow> Inl ''sql: wrong number of columns''))"

definition scan3 :: "string + string list \<Rightarrow> string + string \<times> string \<times> string" where
  "scan3 r = (case r of Inl e \<Rightarrow> Inl e
              | Inr cols \<Rightarrow> (case cols of [c, d, e] \<Rightarrow> Inr (c, d, e) | _ \<Rightarrow> Inl ''sql: wrong number of columns''))"

definition rowsErr :: "string option \<Rightarrow> ts_error option" where
  "rowsErr e = map_option DBErr e"

section \<open>internal/timeseries: the last committed block\<close>

record blockTrack =
  Height :: int64
  Timestamp :: time
  Hash :: "8 word list"
  AssetE8DepthPerPool :: mapStrInt
  RuneE8DepthPerPool :: mapStrInt

text \<open>
  \<open>LastBlock\<close> loads \<open>lastBlockTrack\<close> and asserts its type: with nothing stored yet
  (\<open>None\<close>) the assertion panics.
\<close>

definition LastBlock :: "blockTrack option \<Rightarrow> (int64 \<times> time \<times> 8 word list) option" where
  "LastBlock lastBlockTrack =
     (case lastBlockTrack of None \<Rightarrow> None
      | Some track \<Rightarrow> Some (Height track, Timestamp track, Hash track))"

section \<open>internal/timeseries/lookup.go\<close>

text \<open>
  Every lookup returns its Go result together with the list of queries it handed to
  \<open>DBQuery\<close>, in order.
\<close>

subsection \<open>Pools\<close>

fun poolsLoop :: "(string + string list) list \<Rightarrow> string option \<Rightarrow> string list \<Rightarrow> string list go" where
  "poolsLoop [] err pools = Return pools (rowsErr err)"
| "poolsLoop (r # rs) err pools =
     (case scan1 r of
        Inl e \<Rightarrow> Return pools (Some (DBErr e))
      | Inr s \<Rightarrow> poolsLoop rs err (pools @ [s]))"

definition poolsQ :: string where
  "poolsQ = ''SELECT pool FROM stake_events WHERE block_timestamp <= $1 GROUP BY pool''"

definition Pools :: "dbquery \<Rightarrow> blockTrack option \<Rightarrow> time \<Rightarrow> string list go \<times> query list" where
  "Pools DBQuery lastBlockTrack moment =
     (case LastBlock lastBlockTrack of
        None \<Rightarrow> (Panic, [])
      | Some (h, timestamp, hash) \<Rightarrow>
          if \<not> IsZero moment \<and> Before timestamp moment then (Return [] (Some errBeyondLast), [])
          else
            (let moment = (if IsZero moment then timestamp else moment);
                 q = (poolsQ, [ArgInt (UnixNano moment)])
             in case DBQuery q of
                  Inl e \<Rightarrow> (Return [] (Some (DBErr e)), [q])
                | Inr (rs, err) \<Rightarrow> (poolsLoop rs err [], [q])))"

subsection \<open>PoolStatus\<close>

definition poolStatusQ :: string where
  "poolStatusQ = ''SELECT COALESCE(last(status, block_timestamp), '' @ [CHR 0x27, CHR 0x27]
       @ '') FROM pool_events WHERE block_timestamp <= $2 AND asset = $1''"

definition PoolStatus :: "dbquery \<Rightarrow> blockTrack option \<Rightarrow> string \<Rightarrow> time \<Rightarrow> string go \<times> query list" where
  "PoolStatus DBQuery lastBlockTrack pool moment =
     (case LastBlock lastBlockTrack of
        None \<Rightarrow> (Panic, [])
      | Some (h, timestamp, hash) \<Rightarrow>
          if \<not> IsZero moment \<and> Before timestamp moment then (Return [] (Some errBeyondLast), [])
          else
            (let moment = (if IsZero moment then timestamp else moment);
                 q = (poolStatusQ, [ArgStr pool, ArgInt (UnixNano moment)])
             in case DBQuery q of
                  Inl e \<Rightarrow> (Return [] (Some (DBErr e)), [q])
                | Inr (rs, err) \<Rightarrow>
                    (case rs of
                       [] \<Rightarrow> (Return [] (rowsErr err), [q])
                     | r # _ \<Rightarrow>
                         (case scan1 r of
                            Inl e \<Rightarrow> (Return [] (Some (DBErr e)), [q])
                          | Inr status \<Rightarrow> (Return status (rowsErr err), [q])))))"

subsection \<open>StakeAddrs\<close>

definition stakeAddrsQ :: string where
  "stakeAddrsQ = ''SELECT rune_addr FROM stake_events WHERE block_timestamp <= $1 GROUP BY rune_addr''"

definition StakeAddrs :: "dbquery \<Rightarrow> blockTrack option \<Rightarrow> time \<Rightarrow> string list go \<times> query list" where
  "StakeAddrs DBQuery lastBlockTrack moment =
     (case LastBlock lastBlockTrack of
        None \<Rightarrow> (Panic, [])
      | Some (h, timestamp, hash) \<Rightarrow>
          if \<not> IsZero moment \<and> Before timestamp moment then (Return [] (Some errBeyondLast), [])
          else
            (let moment = (if IsZero moment then timestamp else moment);
                 q = (stakeAddrsQ, [ArgInt (UnixNano moment)])
             in case DBQuery q of
                  Inl e \<Rightarrow> (Return [] (Some (DBErr e)), [q])
                | Inr (rs, err) \<Rightarrow> (poolsLoop rs err [], [q])))"

subsection \<open>Mimir\<close>

text \<open>A nil map and an empty map both read as \<open>Map.empty\<close>.\<close>

fun pairsLoop ::
  "string \<Rightarrow> (string + string list) list \<Rightarrow> string option \<Rightarrow> (string \<rightharpoonup> string)
   \<Rightarrow> (string \<rightharpoonup> string) go" where
  "pairsLoop what [] err m = Return m (rowsErr err)"
| "pairsLoop what (r # rs) err m =
     (case scan2 r of
        Inl e \<Rightarrow> Return m (Some (Wrapped what e))
      | Inr (name, v) \<Rightarrow> pairsLoop what rs err (m(name \<mapsto> v)))"

definition mimirQ :: string where
  "mimirQ = ''SELECT name, value FROM set_mimir_event_entries WHERE block_timestamp <= $1''"

definition Mimir ::
  "dbquery \<Rightarrow> blockTrack option \<Rightarrow> time \<Rightarrow> (string \<rightharpoonup> string) go \<times> query list" where
  "Mimir DBQuery lastBlockTrack moment =
     (case LastBlock lastBlockTrack of
        None \<Rightarrow> (Panic, [])
      | Some (h, timestamp, hash) \<Rightarrow>
          if \<not> IsZero moment \<and> Before timestamp moment
          then (Return Map.empty (Some errBeyondLast), [])
          else
            (let moment = (if IsZero moment then timestamp else moment);
                 q = (mimirQ, [ArgInt (UnixNano moment)])
             in case DBQuery q of
                  Inl e \<Rightarrow> (Return Map.empty (Some (Wrapped ''mimir lookup'' e)), [q])
                | Inr (rs, err) \<Rightarrow> (pairsLoop ''mimir retrieve'' rs err Map.empty, [q])))"

subsection \<open>StatusPerNode and newNodes\<close>

fun newNodesLoop ::
  "(string + string list) list \<Rightarrow> string option \<Rightarrow> (string \<rightharpoonup> string)
   \<Rightarrow> (string \<rightharpoonup> string) go" where
  "newNodesLoop [] err m = Return m (rowsErr err)"
| "newNodesLoop (r # rs) err m =
     (case scan1 r of
        Inl e \<Rightarrow> Return m (Some (Wrapped ''new node retrieve'' e))
      | Inr node \<Rightarrow> newNodesLoop rs err (m(node \<mapsto> [])))"

definition newNodesQ :: string where
  "newNodesQ = ''SELECT node_addr FROM new_node_events WHERE block_timestamp <= $1''"

definition newNodes :: "dbquery \<Rightarrow> time \<Rightarrow> (string \<rightharpoonup> string) go \<times> query list" where
  "newNodes DBQuery moment =
     (let q = (newNodesQ, [ArgInt (UnixNano moment)])
      in case DBQuery q of
           Inl e \<Rightarrow> (Return Map.empty (Some (Wrapped ''new node lookup'' e)), [q])
         | Inr (rs, err) \<Rightarrow> (newNodesLoop rs err Map.empty, [q]))"

definition statusPerNodeQ :: string where
  "statusPerNodeQ = ''SELECT node_addr, current FROM update_node_account_status_events WHERE block_timestamp <= $1''"

definition StatusPerNode ::
  "dbquery \<Rightarrow> blockTrack option \<Rightarrow> time \<Rightarrow> (string \<rightharpoonup> string) go \<times> query list" where
  "StatusPerNode DBQuery lastBlockTrack moment =
     (case LastBlock lastBlockTrack of
        None \<Rightarrow> (Panic, [])
      | Some (h, timestamp, hash) \<Rightarrow>
          if \<not> IsZero moment \<and> Before timestamp moment
          then (Return Map.empty (Some errBeyondLast), [])
          else
            (let moment = (if IsZero moment then timestamp else moment)
             in case newNodes DBQuery moment of
                  (Panic, qs) \<Rightarrow> (Panic, qs)
                | (Return m (Some e), qs) \<Rightarrow> (Return Map.empty (Some e), qs)
                | (Return m None, qs) \<Rightarrow>
                    (let q = (statusPerNodeQ, [ArgInt (UnixNano moment)])
                     in case DBQuery q of
                          Inl e \<Rightarrow>
                            (Return Map.empty (Some (Wrapped ''status per node lookup'' e)), qs @ [q])
                        | Inr (rs, err) \<Rightarrow>
                            (pairsLoop ''status per node retrieve'' rs err m, qs @ [q]))))"

subsection \<open>NodesSecpAndEd\<close>

text \<open>
  The loop over the rows. The state is the two result maps and the log lines, newest
  last. A failed scan returns nil maps. \<open>rows.Err()\<close> is not looked at.
\<close>

datatype key_log = SecpReused string string string | EdReused string string string

fun nodeKeysLoop ::
  "(string + string list) list \<Rightarrow> (string \<rightharpoonup> string) \<Rightarrow> (string \<rightharpoonup> string) \<Rightarrow> key_log list
   \<Rightarrow> ((string \<rightharpoonup> string) \<times> (string \<rightharpoonup> string)) go \<times> key_log list" where
  "nodeKeysLoop [] secp256k1Addrs ed25519Addrs lg =
     (Return (secp256k1Addrs, ed25519Addrs) None, lg)"
| "nodeKeysLoop (r # rs) secp256k1Addrs ed25519Addrs lg =
     (case scan3 r of
        Inl e \<Rightarrow> (Return (Map.empty, Map.empty) (Some (Wrapped ''node addr resolve'' e)), lg)
      | Inr (addr, secp, ed) \<Rightarrow>
          (let lg1 = (case secp256k1Addrs secp of
                        Some current \<Rightarrow> if current \<noteq> addr then lg @ [SecpReused secp current addr] else lg
                      | None \<Rightarrow> lg);
               secp256k1Addrs' = secp256k1Addrs(secp \<mapsto> addr);
               lg2 = (case ed25519Addrs ed of
                        Some current \<Rightarrow> if current \<noteq> addr then lg1 @ [EdReused ed current addr] else lg1
                      | None \<Rightarrow> lg1);
               ed25519Addrs' = ed25519Addrs(secp \<mapsto> addr)
           in nodeKeysLoop rs secp256k1Addrs' ed25519Addrs' lg2))"

definition nodeKeysQ :: string where
  "nodeKeysQ = ''SELECT node_addr, secp256k1, ed25519 FROM set_node_keys_events WHERE block_timestamp <= $1''"

definition NodesSecpAndEd ::
  "dbquery \<Rightarrow> time
   \<Rightarrow> ((string \<rightharpoonup> string) \<times> (string \<rightharpoonup> string)) go \<times> key_log list" where
  "NodesSecpAndEd DBQuery t =
     (case DBQuery (nodeKeysQ, [ArgInt (UnixNano t)]) of
        Inl e \<Rightarrow> (Return (Map.empty, Map.empty) (Some (Wrapped ''node addr lookup'' e)), [])
      | Inr (rs, err) \<Rightarrow> nodeKeysLoop rs Map.empty Map.empty [])"

text \<open>
  The map that sends each row's secp256k1 key to its node address, a later row
  winning over an earlier one with the same key.
\<close>

definition secpKeys :: "(string \<times> string \<times> string) list \<Rightarrow> (string \<rightharpoonup> string)" where
  "secpKeys rs = map_of (rev (map (\<lambda>(addr, secp, ed). (secp, addr)) rs))"

section \<open>internal/timeseries: CommitBlock\<close>

text \<open>
  The package state \<open>CommitBlock\<close> works on: the in-memory copy of the last commit, the
  event recorder (its running totals and its queues of linked events; the recorder's
  type is not in the sources at hand and stays a type parameter), and the log lines
  written, newest last.
\<close>

datatype commit_log = AggStateOmitted string | AlreadyCommitted int64

record 'rec ts_state =
  lastBlockTrack :: "blockTrack option"
  recorder :: 'rec
  logged :: "commit_log list"

text \<open>
  What \<open>CommitBlock\<close> calls and the sources at hand do not define: the recorder's two
  depth accessors, the two queue reconciliations, and the gob encoder (the bytes written
  to the buffer, and the error if it failed).
\<close>

record 'rec commit_env =
  recAssetE8DepthPerPool :: "'rec \<Rightarrow> mapStrInt"
  recRuneE8DepthPerPool :: "'rec \<Rightarrow> mapStrInt"
  ApplyOutboundQ :: "'rec \<Rightarrow> int64 \<Rightarrow> time \<Rightarrow> 'rec"
  ApplyFeeQ :: "'rec \<Rightarrow> int64 \<Rightarrow> time \<Rightarrow> 'rec"
  gobEncode :: "mapStrInt \<times> mapStrInt \<Rightarrow> 8 word list \<times> string option"

datatype commit_error = ErrPersist int64 string | ErrPersistResult int64 string

text \<open>The in-memory snapshot \<open>CommitBlock\<close> builds first.\<close>

definition commitTrack ::
  "'rec commit_env \<Rightarrow> 'rec ts_state \<Rightarrow> int64 \<Rightarrow> time \<Rightarrow> 8 word list \<Rightarrow> blockTrack" where
  "commitTrack env st height timestamp hash =
     \<lparr> Height = height, Timestamp = timestamp, Hash = hash,
       AssetE8DepthPerPool = recAssetE8DepthPerPool env (recorder st),
       RuneE8DepthPerPool = recRuneE8DepthPerPool env (recorder st) \<rparr>"

text \<open>The \<open>block_log\<close> insert \<open>CommitBlock\<close> executes.\<close>

definition commitQuery ::
  "'rec commit_env \<Rightarrow> 'rec ts_state \<Rightarrow> int64 \<Rightarrow> time \<Rightarrow> 8 word list \<Rightarrow> insert_query" where
  "commitQuery env st height timestamp hash =
     (let track = commitTrack env st height timestamp hash;
          (aggSerial, err) = gobEncode env (AssetE8DepthPerPool track, RuneE8DepthPerPool track)
      in InsertBlockLog height (UnixNano timestamp) hash aggSerial)"

definition CommitBlock ::
  "(insert_query \<Rightarrow> exec_result) \<Rightarrow> 'rec commit_env \<Rightarrow> 'rec ts_state \<Rightarrow> int64 \<Rightarrow> time
   \<Rightarrow> 8 word list \<Rightarrow> commit_error option \<times> 'rec ts_state" where
  "CommitBlock DBExec env st height timestamp hash =
     (let track = commitTrack env st height timestamp hash;
          (aggSerial, err) = gobEncode env (AssetE8DepthPerPool track, RuneE8DepthPerPool track);
          st1 = (case err of
                   Some e \<Rightarrow> st\<lparr>logged := logged st @ [AggStateOmitted e]\<rparr>
                 | None \<Rightarrow> st)
      in case DBExec (InsertBlockLog height (UnixNano timestamp) hash aggSerial) of
           ExecFailed e \<Rightarrow> (Some (ErrPersist height e), st1)
         | RowsAffectedFailed e \<Rightarrow> (Some (ErrPersistResult height e), st1)
         | RowsAffected n \<Rightarrow>
             (let st2 = (if n = 0 then st1\<lparr>logged := logged st1 @ [AlreadyCommitted height]\<rparr>
                         else st1);
                  st3 = st2\<lparr>recorder := ApplyOutboundQ env (recorder st2) height timestamp\<rparr>;
                  st4 = st3\<lparr>recorder := ApplyFeeQ env (recorder st3) height timestamp\<rparr>
              in (None, st4\<lparr>lastBlockTrack := Some track\<rparr>)))"

section \<open>Tendermint types\<close>

text \<open>The parts of the Tendermint RPC types that the code reads.\<close>

type_synonym attrs = "(string \<times> string) list"

record abci_Event =
  Type :: string
  Attributes :: attrs

record ResponseDeliverTx =
  Events :: "abci_Event list"

record ResultBlockResults =
  ResultsHeight :: int64
  TxsResults :: "ResponseDeliverTx list"

record Header =
  HeaderHeight :: int64
  HeaderTime :: time

record BlockMeta =
  BlockIDHash :: "8 word list"
  BlockHeader :: Header

section \<open>Package event: Demux\<close>

record Metadata =
  BlockTimestamp :: time

text \<open>
  The calls a \<open>Listener\<close> receives. The ten record types (\<open>Add\<close>, \<open>Fee\<close>, ...) are
  not in the sources at hand; \<open>'r\<close> stands for a decoded record.
\<close>

datatype 'r listener_call =
    OnAdd 'r Metadata
  | OnFee 'r Metadata
  | OnMessage 'r Metadata
  | OnOutbound 'r Metadata
  | OnPool 'r Metadata
  | OnRefund 'r Metadata
  | OnReserve 'r Metadata
  | OnStake 'r Metadata
  | OnSwap 'r Metadata
  | OnUnstake 'r Metadata

text \<open>
  The decoders \<open>LoadTendermint\<close> of the ten record types are not in the sources at hand
  either. They are a parameter: from the attributes of an event, the error or the record
  that the reused instance then holds.
\<close>

record 'r loaders =
  AddLoadTendermint :: "attrs \<Rightarrow> string + 'r"
  FeeLoadTendermint :: "attrs \<Rightarrow> string + 'r"
  MessageLoadTendermint :: "attrs \<Rightarrow> string + 'r"
  OutboundLoadTendermint :: "attrs \<Rightarrow> string + 'r"
  PoolLoadTendermint :: "attrs \<Rightarrow> string + 'r"
  RefundLoadTendermint :: "attrs \<Rightarrow> string + 'r"
  ReserveLoadTendermint :: "attrs \<Rightarrow> string + 'r"
  StakeLoadTendermint :: "attrs \<Rightarrow> string + 'r"
  SwapLoadTendermint :: "attrs \<Rightarrow> string + 'r"
  UnstakeLoadTendermint :: "attrs \<Rightarrow> string + 'r"

datatype event_error = errEventType | LoadError string

text \<open>One arm of the switch in \<open>Demux.event\<close>: decode, then notify the listener.\<close>

definition arm ::
  "(attrs \<Rightarrow> string + 'r) \<Rightarrow> ('r \<Rightarrow> Metadata \<Rightarrow> 'r listener_call) \<Rightarrow> attrs \<Rightarrow> Metadata
   \<Rightarrow> event_error option \<times> 'r listener_call list" where
  "arm load on as meta =
     (case load as of
        Inl err \<Rightarrow> (Some (LoadError err), [])
      | Inr v \<Rightarrow> (None, [on v meta]))"

text \<open>
  \<open>Demux.event\<close>: the error it returns and the listener calls it makes (none or one).
\<close>

definition event ::
  "'r loaders \<Rightarrow> abci_Event \<Rightarrow> Metadata \<Rightarrow> event_error option \<times> 'r listener_call list" where
  "event d ev meta =
     (let as = Attributes ev in
      if Type ev = ''add'' then arm (AddLoadTendermint d) OnAdd as meta
      else if Type ev = ''fee'' then arm (FeeLoadTendermint d) OnFee as meta
      else if Type ev = ''message'' then arm (MessageLoadTendermint d) OnMessage as meta
      else if Type ev = ''outbound'' then arm (OutboundLoadTendermint d) OnOutbound as meta
      else if Type ev = ''pool'' then arm (PoolLoadTendermint d) OnPool as meta
      else if Type ev = ''refund'' then arm (RefundLoadTendermint d) OnRefund as meta
      else if Type ev = ''reserve'' then arm (ReserveLoadTendermint d) OnReserve as meta
      else if Type ev = ''stake'' then arm (StakeLoadTendermint d) OnStake as meta
      else if Type ev = ''swap'' then arm (SwapLoadTendermint d) OnSwap as meta
      else if Type ev = ''unstake'' then arm (UnstakeLoadTendermint d) OnUnstake as meta
      else (Some errEventType, []))"

text \<open>A log line of \<open>Demux.Block\<close>: block id, tx index, event index, type, cause.\<close>

datatype skip_log = Skipped "8 word list" nat nat string event_error

text \<open>
  The inner loop of \<open>Demux.Block\<close>, over the events of one transaction, from event
  index \<open>eventIndex\<close> on. The state is the listener calls made and the lines logged so
  far, newest last.
\<close>

fun blockEvents ::
  "'r loaders \<Rightarrow> Metadata \<Rightarrow> 8 word list \<Rightarrow> nat \<Rightarrow> nat \<Rightarrow> abci_Event list
   \<Rightarrow> 'r listener_call list \<times> skip_log list \<Rightarrow> 'r listener_call list \<times> skip_log list" where
  "blockEvents d m blockID txIndex eventIndex [] (calls, lg) = (calls, lg)"
| "blockEvents d m blockID txIndex eventIndex (ev # evs) (calls, lg) =
     (case event d ev m of
        (Some err, made) \<Rightarrow>
          blockEvents d m blockID txIndex (Suc eventIndex) evs
            (calls @ made, lg @ [Skipped blockID txIndex eventIndex (Type ev) err])
      | (None, made) \<Rightarrow>
          blockEvents d m blockID txIndex (Suc eventIndex) evs (calls @ made, lg))"

text \<open>The outer loop, over the transactions from index \<open>txIndex\<close> on.\<close>

fun blockTxs ::
  "'r loaders \<Rightarrow> Metadata \<Rightarrow> 8 word list \<Rightarrow> nat \<Rightarrow> ResponseDeliverTx list
   \<Rightarrow> 'r listener_call list \<times> skip_log list \<Rightarrow> 'r listener_call list \<times> skip_log list" where
  "blockTxs d m blockID txIndex [] s = s"
| "blockTxs d m blockID txIndex (tx # txs) s =
     blockTxs d m blockID (Suc txIndex) txs (blockEvents d m blockID txIndex 0 (Events tx) s)"

text \<open>
  \<open>Demux.Block\<close>. It has no result; the model returns what it did: the listener calls
  and the log lines, in order.
\<close>

definition Block ::
  "'r loaders \<Rightarrow> ResultBlockResults \<Rightarrow> BlockMeta \<Rightarrow> 'r listener_call list \<times> skip_log list" where
  "Block d block meta =
     (let m = \<lparr> BlockTimestamp = HeaderTime (BlockHeader meta) \<rparr>
      in blockTxs d m (BlockIDHash meta) 0 (TxsResults block) ([], []))"

text \<open>What one event contributes on its own: its listener calls and its log lines.\<close>

definition eventCalls :: "'r loaders \<Rightarrow> Metadata \<Rightarrow> abci_Event \<Rightarrow> 'r listener_call list" where
  "eventCalls d m ev = snd (event d ev m)"

definition eventLog ::
  "'r loaders \<Rightarrow> Metadata \<Rightarrow> 8 word list \<Rightarrow> nat \<Rightarrow> nat \<times> abci_Event \<Rightarrow> skip_log list" where
  "eventLog d m blockID txIndex iev =
     (case fst (event d (snd iev) m) of
        Some err \<Rightarrow> [Skipped blockID txIndex (fst iev) (Type (snd iev)) err]
      | None \<Rightarrow> [])"

text \<open>
  The claim's reading of an event, to compare \<open>Demux.Block\<close> with. The known types,
  each with its decoder and the listener method its record goes to:
\<close>

definition knownTypes ::
  "'r loaders \<Rightarrow> (string \<times> (attrs \<Rightarrow> string + 'r) \<times> ('r \<Rightarrow> Metadata \<Rightarrow> 'r listener_call)) list" where
  "knownTypes d =
     [(''add'', AddLoadTendermint d, OnAdd),
      (''fee'', FeeLoadTendermint d, OnFee),
      (''message'', MessageLoadTendermint d, OnMessage),
      (''outbound'', OutboundLoadTendermint d, OnOutbound),
      (''pool'', PoolLoadTendermint d, OnPool),
      (''refund'', RefundLoadTendermint d, OnRefund),
      (''reserve'', ReserveLoadTendermint d, OnReserve),
      (''stake'', StakeLoadTendermint d, OnStake),
      (''swap'', SwapLoadTendermint d, OnSwap),
      (''unstake'', UnstakeLoadTendermint d, OnUnstake)]"

text \<open>
  An event fails when its type is unknown, or when its attributes do not decode for a
  known type.
\<close>

definition eventFailure :: "'r loaders \<Rightarrow> abci_Event \<Rightarrow> event_error option" where
  "eventFailure d ev =
     (case map_of (knownTypes d) (Type ev) of
        None \<Rightarrow> Some errEventType
      | Some (load, on) \<Rightarrow>
          (case load (Attributes ev) of Inl msg \<Rightarrow> Some (LoadError msg) | Inr v \<Rightarrow> None))"

text \<open>What the listener is to receive for an event: its record, unless the event fails.\<close>

definition delivered :: "'r loaders \<Rightarrow> Metadata \<Rightarrow> abci_Event \<Rightarrow> 'r listener_call list" where
  "delivered d m ev =
     (case map_of (knownTypes d) (Type ev) of
        None \<Rightarrow> []
      | Some (load, on) \<Rightarrow>
          (case load (Attributes ev) of Inl msg \<Rightarrow> [] | Inr v \<Rightarrow> [on v m]))"

text \<open>What is to be logged for the event at an index of a transaction: a line if it fails.\<close>

definition skipLines ::
  "'r loaders \<Rightarrow> 8 word list \<Rightarrow> nat \<Rightarrow> nat \<times> abci_Event \<Rightarrow> skip_log list" where
  "skipLines d blockID txIndex iev =
     (case eventFailure d (snd iev) of
        Some err \<Rightarrow> [Skipped blockID txIndex (fst iev) (Type (snd iev)) err]
      | None \<Rightarrow> [])"

text \<open>Decoders that accept any attributes, but for a stake without attributes.\<close>

definition strictStake :: "attrs loaders" where
  "strictStake =
     \<lparr> AddLoadTendermint = Inr, FeeLoadTendermint = Inr, MessageLoadTendermint = Inr,
       OutboundLoadTendermint = Inr, PoolLoadTendermint = Inr, RefundLoadTendermint = Inr,
       ReserveLoadTendermint = Inr,
       StakeLoadTendermint = (\<lambda>as. if as = [] then Inl ''no attributes'' else Inr as),
       SwapLoadTendermint = Inr, UnstakeLoadTendermint = Inr \<rparr>"

section \<open>chain/chain.go\<close>

text \<open>
  \<open>Block\<close>, the chain record. Its fields \<open>Height\<close>, \<open>Time\<close> and \<open>Hash\<close> carry the
  prefix \<open>Block\<close> here, the plain names being fields of \<open>blockTrack\<close>.
\<close>

record ChainBlock =
  BlockHeight :: int64
  BlockTime :: time
  BlockHash :: "8 word list"
  Results :: ResultBlockResults

text \<open>
  The Tendermint node behind the \<open>Client\<close>, and the two channels of \<open>Follow\<close>. The node
  and the channels are outside the program: \<open>'n\<close> is their state, and every call takes
  the state and returns the next one.
  \<^item> \<open>Status\<close>: the error, or \<open>SyncInfo.LatestBlockHeight\<close>.
  \<^item> \<open>BlockchainInfo\<close>: the error, or \<open>BlockMetas\<close>.
  \<^item> \<open>BlockResults\<close> on the batch client: the error of enqueueing the request.
  \<^item> \<open>signClientTrigger\<close>: the error, or what the result of the i-th enqueued request
    holds after the batch was sent.
  \<^item> \<open>quitReady\<close>: whether a receive on \<open>quit\<close> can proceed (the \<open>select\<close> with a
    \<open>default\<close>).
  \<^item> \<open>sendOrQuit\<close>: the \<open>select\<close> between the send on \<open>out\<close> (\<open>True\<close>) and the receive
    on \<open>quit\<close> (\<open>False\<close>).
\<close>

record 'n Client =
  Status :: "'n \<Rightarrow> (string + int64) \<times> 'n"
  BlockchainInfo :: "'n \<Rightarrow> int64 \<Rightarrow> int64 \<Rightarrow> (string + BlockMeta list) \<times> 'n"
  BlockResults :: "'n \<Rightarrow> int64 \<Rightarrow> string option \<times> 'n"
  signClientTrigger :: "'n \<Rightarrow> (string + (nat \<Rightarrow> ResultBlockResults)) \<times> 'n"
  quitReady :: "'n \<Rightarrow> bool \<times> 'n"
  sendOrQuit :: "'n \<Rightarrow> ChainBlock \<Rightarrow> bool \<times> 'n"

datatype chain_error =
    ErrNoData
  | ErrQuit
  | ErrStatus string
  | ErrBlockchainInfo int64 int64 string
  | ErrOrder int64 int64 int64 int64
  | ErrRange int64 int64 int64 int64
  | ErrEnqueue int64 string
  | ErrBatch int64 int64 string
  | ErrResults int64 int64

text \<open>
  The first check of \<open>fetchBlocks\<close>: the first pair of neighbours \<open>(previous, height)\<close>
  with \<open>height >= previous\<close> (signed), if there is one.
\<close>

fun validateOrder :: "int64 list \<Rightarrow> (int64 \<times> int64) option" where
  "validateOrder (previous # height # hs) =
     (if sint height \<ge> sint previous then Some (previous, height)
      else validateOrder (height # hs))"
| "validateOrder hs = None"

text \<open>
  The setup loop of \<open>fetchBlocks\<close>, over the block metas from the last to the first:
  fill \<open>batch[n]\<close> and enqueue its \<open>BlockResults\<close> request. The metas come in reversed
  already; \<open>room\<close> is the number of free entries of \<open>batch\<close>, and writing beyond it
  panics (\<open>None\<close>).
\<close>

fun setupBlocks ::
  "'n Client \<Rightarrow> 'n \<Rightarrow> nat \<Rightarrow> BlockMeta list
   \<Rightarrow> (chain_error + BlockMeta list) option \<times> 'n" where
  "setupBlocks c s room [] = (Some (Inr []), s)"
| "setupBlocks c s room (m # ms) =
     (case room of
        0 \<Rightarrow> (None, s)
      | Suc room' \<Rightarrow>
          (case BlockResults c s (HeaderHeight (BlockHeader m)) of
             (Some err, s') \<Rightarrow> (Some (Inl (ErrEnqueue (HeaderHeight (BlockHeader m)) err)), s')
           | (None, s') \<Rightarrow>
               (case setupBlocks c s' room' ms of
                  (Some (Inr done), s'') \<Rightarrow> (Some (Inr (m # done)), s'')
                | other \<Rightarrow> other)))"

text \<open>The blocks of \<open>batch[:n]\<close> once the batch was sent.\<close>

definition hydrate :: "BlockMeta list \<Rightarrow> (nat \<Rightarrow> ResultBlockResults) \<Rightarrow> ChainBlock list" where
  "hydrate ms res =
     map (\<lambda>(i, m). \<lparr> BlockHeight = HeaderHeight (BlockHeader m),
                      BlockTime = HeaderTime (BlockHeader m),
                      BlockHash = BlockIDHash m, Results = res i \<rparr>) (enumerate 0 ms)"

text \<open>The last check: the first block whose results carry another height.\<close>

definition validateResults :: "ChainBlock list \<Rightarrow> chain_error option" where
  "validateResults blocks =
     (case filter (\<lambda>b. ResultsHeight (Results b) \<noteq> BlockHeight b) blocks of
        [] \<Rightarrow> None
      | b # _ \<Rightarrow> Some (ErrResults (BlockHeight b) (ResultsHeight (Results b))))"

text \<open>
  \<open>fetchBlocks\<close>, with \<open>len(batch)\<close> as \<open>batchLen\<close>. The result is \<open>None\<close> for a panic,
  else \<open>batch[:n]\<close> and the error; \<open>n\<close> is the length of the list.
\<close>

definition fetchBlocks ::
  "'n Client \<Rightarrow> 'n \<Rightarrow> nat \<Rightarrow> int64 \<Rightarrow> (ChainBlock list \<times> chain_error option) option \<times> 'n" where
  "fetchBlocks c s batchLen offset =
     (let last = offset + word_of_int (int batchLen - 1) in
      case BlockchainInfo c s offset last of
        (Inl err, s1) \<Rightarrow> (Some ([], Some (ErrBlockchainInfo offset last err)), s1)
      | (Inr metas, s1) \<Rightarrow>
          if metas = [] then (Some ([], None), s1)
          else
            (let hs = map (\<lambda>m. HeaderHeight (BlockHeader m)) metas in
             case validateOrder hs of
               Some (previous, height) \<Rightarrow> (Some ([], Some (ErrOrder offset last previous height)), s1)
             | None \<Rightarrow>
                 (let high = hd hs; low = List.last hs in
                  if sint high > sint last \<or> sint low < sint offset
                  then (Some ([], Some (ErrRange offset last low high)), s1)
                  else
                    (case setupBlocks c s1 batchLen (rev metas) of
                       (None, s2) \<Rightarrow> (None, s2)
                     | (Some (Inl err), s2) \<Rightarrow> (Some ([], Some err), s2)
                     | (Some (Inr ms), s2) \<Rightarrow>
                         (case signClientTrigger c s2 of
                            (Inl err, s3) \<Rightarrow> (Some ([], Some (ErrBatch offset last err)), s3)
                          | (Inr res, s3) \<Rightarrow>
                              (case validateResults (hydrate ms res) of
                                 Some err \<Rightarrow> (Some ([], Some err), s3)
                               | None \<Rightarrow> (Some (hydrate ms res, None), s3)))))))"

text \<open>
  The submit loop of \<open>Follow\<close> over \<open>batch[:n]\<close>. Returns whether \<open>quit\<close> was received,
  the offset, and the blocks sent to \<open>out\<close> so far, oldest first.
\<close>

fun submit ::
  "'n Client \<Rightarrow> 'n \<Rightarrow> ChainBlock list \<Rightarrow> int64 \<Rightarrow> ChainBlock list
   \<Rightarrow> bool \<times> int64 \<times> ChainBlock list \<times> 'n" where
  "submit c s [] offset sent = (False, offset, sent, s)"
| "submit c s (b # bs) offset sent =
     (case sendOrQuit c s b of
        (False, s') \<Rightarrow> (True, offset, sent, s')
      | (True, s') \<Rightarrow> submit c s' bs (BlockHeight b + 1) (sent @ [b]))"

text \<open>How \<open>Follow\<close> ends: with a panic, or returning the height and the error.\<close>

datatype follow_end = FollowPanic | FollowReturn int64 "chain_error option"

text \<open>
  The loop of \<open>Follow\<close>. It need not end: \<open>fuel\<close> bounds the number of rounds, and
  the end is \<open>None\<close> when the fuel ran out. The blocks sent to \<open>out\<close> are returned in
  every case.
\<close>

fun followLoop ::
  "nat \<Rightarrow> 'n Client \<Rightarrow> 'n \<Rightarrow> int64 \<Rightarrow> int64 \<Rightarrow> ChainBlock list
   \<Rightarrow> follow_end option \<times> ChainBlock list \<times> 'n" where
  "followLoop 0 c s latest offset sent = (None, sent, s)"
| "followLoop (Suc fuel) c s latest offset sent =
     (let polled =
            (if sint offset > sint latest then
               (case Status c s of
                  (Inl err, s') \<Rightarrow> (Inl (FollowReturn offset (Some (ErrStatus err))), s')
                | (Inr latest', s') \<Rightarrow>
                    if sint offset > sint latest'
                    then (Inl (FollowReturn offset (Some ErrNoData)), s')
                    else (Inr latest', s'))
             else (Inr latest, s))
      in case polled of
           (Inl end, s1) \<Rightarrow> (Some end, sent, s1)
         | (Inr latest1, s1) \<Rightarrow>
             (case fetchBlocks c s1 20 offset of
                (None, s2) \<Rightarrow> (Some FollowPanic, sent, s2)
              | (Some (blocks, Some err), s2) \<Rightarrow> (Some (FollowReturn offset (Some err)), sent, s2)
              | (Some ([], None), s2) \<Rightarrow>
                  (case quitReady c s2 of
                     (True, s3) \<Rightarrow> (Some (FollowReturn offset (Some ErrNoData)), sent, s3)
                   | (False, s3) \<Rightarrow> followLoop fuel c s3 latest1 offset sent)
              | (Some (blocks, None), s2) \<Rightarrow>
                  (case submit c s2 blocks offset sent of
                     (True, offset', sent', s3) \<Rightarrow> (Some (FollowReturn offset' None), sent', s3)
                   | (False, offset', sent', s3) \<Rightarrow> followLoop fuel c s3 latest1 offset' sent')))"

text \<open>\<open>Follow\<close>: the first status request, then the loop.\<close>

definition Follow ::
  "nat \<Rightarrow> 'n Client \<Rightarrow> 'n \<Rightarrow> int64 \<Rightarrow> follow_end option \<times> ChainBlock list \<times> 'n" where
  "Follow fuel c s offset =
     (case Status c s of
        (Inl err, s') \<Rightarrow> (Some (FollowReturn offset (Some (ErrStatus err))), [], s')
      | (Inr latest, s') \<Rightarrow> followLoop fuel c s' latest offset [])"

text \<open>
  A node whose \<open>BlockchainInfo\<close> answers with the block metas of heights 12 and 10
  (descending, inside any range that starts at 10), whose batch answers echo the
  requested heights, and whose latest height is 12. Nobody signals \<open>quit\<close>.
\<close>

definition gapNode :: "unit Client" where
  "gapNode =
     \<lparr> Status = (\<lambda>s. (Inr 12, s)),
       BlockchainInfo = (\<lambda>s lo hi.
         (Inr [\<lparr> BlockIDHash = [], BlockHeader = \<lparr> HeaderHeight = 12, HeaderTime = 2 \<rparr> \<rparr>,
               \<lparr> BlockIDHash = [], BlockHeader = \<lparr> HeaderHeight = 10, HeaderTime = 1 \<rparr> \<rparr>], s)),
       BlockResults = (\<lambda>s h. (None, s)),
       signClientTrigger = (\<lambda>s.
         (Inr (\<lambda>i. \<lparr> ResultsHeight = (if i = 0 then 10 else 12), TxsResults = [] \<rparr>), s)),
       quitReady = (\<lambda>s. (False, s)),
       sendOrQuit = (\<lambda>s b. (True, s)) \<rparr>"

text \<open>
  Two more nodes: one whose \<open>BlockchainInfo\<close> answers in ascending order, and one whose
  batch answers all carry the height 10.
\<close>

definition unorderedNode :: "unit Client" where
  "unorderedNode = gapNode\<lparr> BlockchainInfo := (\<lambda>s lo hi.
     (Inr [\<lparr> BlockIDHash = [], BlockHeader = \<lparr> HeaderHeight = 10, HeaderTime = 1 \<rparr> \<rparr>,
           \<lparr> BlockIDHash = [], BlockHeader = \<lparr> HeaderHeight = 12, HeaderTime = 2 \<rparr> \<rparr>], s)) \<rparr>"

definition mismatchNode :: "unit Client" where
  "mismatchNode = gapNode\<lparr> signClientTrigger := (\<lambda>s.
     (Inr (\<lambda>i. \<lparr> ResultsHeight = 10, TxsResults = [] \<rparr>), s)) \<rparr>"

text \<open>A node whose \<open>BlockchainInfo\<close> answers with the single height 40.\<close>

definition outOfRangeNode :: "unit Client" where
  "outOfRangeNode = gapNode\<lparr> BlockchainInfo := (\<lambda>s lo hi.
     (Inr [\<lparr> BlockIDHash = [], BlockHeader = \<lparr> HeaderHeight = 40, HeaderTime = 1 \<rparr> \<rparr>], s)) \<rparr>"

section \<open>The pipeline task\<close>

text \<open>
  Modelled from the spec: the pipeline task, which is not among the sources. The spec
  has it receive the blocks and run, per block and in this order, the demultiplexer
  and the recorder, then the depth snapshotter, then the committer; a row count
  mismatch on the depth insert is fatal, and a fatal error makes the pipeline task
  exit. Here the listener is the recorder (its handlers are the parameter
  \<open>OnEvent\<close>), the snapshotter is \<open>update\<close> on the recorder's depths and the
  committer is \<open>CommitBlock\<close>; the task exits with the first error, and otherwise goes
  on with the next block.
\<close>

datatype pipeline_error = SnapshotFailed update_error | CommitFailed commit_error

record 'rec pipeline_state =
  depthSnapshot :: snapshotManager
  poolIdMapperr :: poolIdMap
  timeseries :: "'rec ts_state"

text \<open>
  Modelled from the spec: the demultiplexer hands the events of the block to the
  recorder, in order.
\<close>

definition recordBlock ::
  "'r loaders \<Rightarrow> ('rec \<Rightarrow> 'r listener_call \<Rightarrow> 'rec) \<Rightarrow> 'rec \<Rightarrow> ChainBlock \<Rightarrow> 'rec" where
  "recordBlock d OnEvent rec b =
     foldl OnEvent rec
       (fst (Block d (Results b)
               \<lparr> BlockIDHash = BlockHash b,
                 BlockHeader = \<lparr> HeaderHeight = BlockHeight b, HeaderTime = BlockTime b \<rparr> \<rparr>))"

text \<open>
  Modelled from the spec: the pipeline task over the blocks received. It returns the
  error it exits with, if any, and the state it leaves.
\<close>

fun pipelineTask ::
  "(insert_query \<Rightarrow> exec_result) \<Rightarrow> 'rec commit_env \<Rightarrow> 'r loaders
   \<Rightarrow> ('rec \<Rightarrow> 'r listener_call \<Rightarrow> 'rec) \<Rightarrow> ChainBlock list \<Rightarrow> 'rec pipeline_state
   \<Rightarrow> pipeline_error option \<times> 'rec pipeline_state" where
  "pipelineTask DBExec env d OnEvent [] st = (None, st)"
| "pipelineTask DBExec env d OnEvent (b # bs) st =
     (let rec' = recordBlock d OnEvent (recorder (timeseries st)) b;
          ts1 = (timeseries st)\<lparr>recorder := rec'\<rparr>;
          (failed, sm', pim') =
            update DBExec (depthSnapshot st) (poolIdMapperr st) (BlockHeight b)
              (recAssetE8DepthPerPool env rec') (recRuneE8DepthPerPool env rec');
          st1 = \<lparr> depthSnapshot = sm', poolIdMapperr = pim', timeseries = ts1 \<rparr>
      in case failed of
           Some err \<Rightarrow> (Some (SnapshotFailed err), st1)
         | None \<Rightarrow>
             (case CommitBlock DBExec env ts1 (BlockHeight b) (BlockTime b) (BlockHash b) of
                (Some err, ts2) \<Rightarrow> (Some (CommitFailed err), st1\<lparr>timeseries := ts2\<rparr>)
              | (None, ts2) \<Rightarrow>
                  pipelineTask DBExec env d OnEvent bs (st1\<lparr>timeseries := ts2\<rparr>)))"

text \<open>
  A recorder that is a pair of depth maps and has no queues, a state in which one pool
  has depths and nothing was snapshotted or committed yet, and a block without events.
\<close>

definition plainEnv :: "(mapStrInt \<times> mapStrInt) commit_env" where
  "plainEnv =
     \<lparr> recAssetE8DepthPerPool = fst, recRuneE8DepthPerPool = snd,
       ApplyOutboundQ = (\<lambda>r h t. r), ApplyFeeQ = (\<lambda>r h t. r),
       gobEncode = (\<lambda>x. ([], None)) \<rparr>"

definition stakedState :: "(mapStrInt \<times> mapStrInt) pipeline_state" where
  "stakedState =
     \<lparr> depthSnapshot =
         \<lparr> assetE8DepthSnapshot = [], runeE8DepthSnapshot = [], snapshotHeight = 0 \<rparr>,
       poolIdMapperr = [],
       timeseries =
         \<lparr> lastBlockTrack = None,
           recorder = ([(''BNB.BNB'', 100)], [(''BNB.BNB'', 1000)]),
           logged = [] \<rparr> \<rparr>"

definition emptyBlock :: "int64 \<Rightarrow> ChainBlock" where
  "emptyBlock h =
     \<lparr> BlockHeight = h, BlockTime = 5, BlockHash = [],
       Results = \<lparr> ResultsHeight = h, TxsResults = [] \<rparr> \<rparr>"

section \<open>internal/api/v1.go: ratios\<close>

text \<open>
  A \<open>float64\<close> is modelled by the rational it denotes, and an operation that yields a
  \<open>float64\<close> by the exact result rounded to 53 significant bits, to nearest, ties to
  even. The values met here are \<open>int64\<close> values, their quotients and the doubles
  nearest to those; none of them overflows or is subnormal, so infinities, NaN and
  subnormals are left out.

  \<open>scale53\<close> brings a positive value into \<open>[2^52, 2^53)\<close> by halving or doubling,
  counting the exponent; the fuel of 128 steps covers every magnitude from \<open>2^-75\<close>
  to \<open>2^180\<close>.
\<close>

fun scale53 :: "nat \<Rightarrow> rat \<Rightarrow> int \<Rightarrow> rat \<times> int" where
  "scale53 0 x e = (x, e)"
| "scale53 (Suc fuel) x e =
     (if 2 ^ 53 \<le> x then scale53 fuel (x / 2) (e + 1)
      else if x < 2 ^ 52 then scale53 fuel (x * 2) (e - 1)
      else (x, e))"

text \<open>Rounding to the nearest integer, a tie going to the even one.\<close>

definition roundHalfEven :: "rat \<Rightarrow> int" where
  "roundHalfEven q =
     (let f = \<lfloor>q\<rfloor>; d = q - of_int f
      in if d < 1 / 2 then f else if 1 / 2 < d then f + 1 else if even f then f else f + 1)"

text \<open>The double nearest to a rational.\<close>

definition round53 :: "rat \<Rightarrow> rat" where
  "round53 x =
     (if x = 0 then 0
      else (let (m, e) = scale53 128 \<bar>x\<bar> 0
            in sgn x * of_int (roundHalfEven m)
                 * (if 0 \<le> e then 2 ^ nat e else 1 / 2 ^ nat (- e))))"

text \<open>The conversion \<open>float64(n)\<close> of an \<open>int64\<close>.\<close>

definition float64 :: "int64 \<Rightarrow> rat" where
  "float64 n = round53 (of_int (sint n))"

text \<open>The division \<open>a / b\<close> of two \<open>float64\<close> values, \<open>b\<close> not zero.\<close>

definition fdiv :: "rat \<Rightarrow> rat \<Rightarrow> rat" where
  "fdiv a b = round53 (a / b)"

text \<open>\<open>big.NewRat(a, b)\<close>, the exact fraction; the callers make sure \<open>b\<close> is not 0.\<close>

definition NewRat :: "int64 \<Rightarrow> int64 \<Rightarrow> rat" where
  "NewRat a b = of_int (sint a) / of_int (sint b)"

text \<open>
  \<open>(*big.Rat).Float64\<close>, the nearest \<open>float64\<close>. \<open>ratFloatStr\<close> hands it to
  \<open>strconv.FormatFloat\<close>, which prints the shortest decimal that identifies the double, so
  that two doubles print alike only if they are equal; the model stops at the double.
\<close>

definition Float64 :: "rat \<Rightarrow> rat" where
  "Float64 r = round53 r"

text \<open>Reading a Go map: the zero value for a missing key.\<close>

definition depthOf :: "mapStrInt \<Rightarrow> string \<Rightarrow> int64" where
  "depthOf m k = (case map_of m k of None \<Rightarrow> 0 | Some v \<Rightarrow> v)"

text \<open>
  \<open>serveV1Assets\<close>, the entry \<open>priceRune\<close> of an asset: the double handed to
  \<open>strconv.FormatFloat\<close>, or \<open>None\<close> when the entry is left out.
\<close>

definition priceRune :: "mapStrInt \<Rightarrow> mapStrInt \<Rightarrow> string \<Rightarrow> rat option" where
  "priceRune assetE8DepthPerPool runeE8DepthPerPool asset =
     (let assetDepth = depthOf assetE8DepthPerPool asset
      in if assetDepth \<noteq> 0
         then Some (fdiv (float64 (depthOf runeE8DepthPerPool asset)) (float64 assetDepth))
         else None)"

text \<open>
  \<open>poolsAsset\<close>, the entry \<open>price\<close> of the same ratio: the double \<open>ratFloatStr\<close>
  hands to \<open>strconv.FormatFloat\<close>, or \<open>None\<close> when the entry is left out.
\<close>

definition price :: "mapStrInt \<Rightarrow> mapStrInt \<Rightarrow> string \<Rightarrow> rat option" where
  "price assetE8DepthPerPool runeE8DepthPerPool asset =
     (let assetDepth = depthOf assetE8DepthPerPool asset;
          runeDepth = depthOf runeE8DepthPerPool asset
      in if assetDepth \<noteq> 0 then Some (Float64 (NewRat runeDepth assetDepth)) else None)"

section \<open>Depth snapshots: which pools get a row\<close>

lemma collectRows_pools:
  "map (\<lambda>row. fst (snd row)) (fst (collectRows sm height a r pools pim)) =
   filter (\<lambda>p. fst (diffAtKey (assetE8DepthSnapshot sm) p a)
              \<or> fst (diffAtKey (runeE8DepthSnapshot sm) p r)) pools"
proof (induction pools arbitrary: pim)
  case Nil
  show ?case by simp
next
  case (Cons pool pools)
  obtain ad av where A: "diffAtKey (assetE8DepthSnapshot sm) pool a = (ad, av)"
    by (cases "diffAtKey (assetE8DepthSnapshot sm) pool a")
  obtain rd rv where R: "diffAtKey (runeE8DepthSnapshot sm) pool r = (rd, rv)"
    by (cases "diffAtKey (runeE8DepthSnapshot sm) pool r")
  obtain i pim' where G: "getId pim pool = (i, pim')"
    by (cases "getId pim pool")
  obtain rows rows2 pim'' where C: "collectRows sm height a r pools pim' = (rows, rows2, pim'')"
    by (cases "collectRows sm height a r pools pim'")
  show ?case
  proof (cases "ad \<or> rd")
    case True
    have "map (\<lambda>row. fst (snd row)) rows =
          filter (\<lambda>p. fst (diffAtKey (assetE8DepthSnapshot sm) p a)
                    \<or> fst (diffAtKey (runeE8DepthSnapshot sm) p r)) pools"
      using Cons.IH [of pim'] C by simp
    with True A R G C show ?thesis by simp
  next
    case False
    with A R Cons.IH [of pim] show ?thesis by simp
  qed
qed

text \<open>
  The pools of the emitted rows are the pool names for which \<open>diffAtKey\<close> reports a
  difference on the asset side or on the rune side.
\<close>

lemma emittedRows_pools:
  "map (\<lambda>row. fst (snd row)) (emittedRows sm pim height a r) =
   filter (\<lambda>p. fst (diffAtKey (assetE8DepthSnapshot sm) p a)
              \<or> fst (diffAtKey (runeE8DepthSnapshot sm) p r)) (poolNames a r sm)"
  unfolding emittedRows_def by (rule collectRows_pools)

text \<open>
  C2. The claim: a row is emitted for a pool iff its asset or rune depth differs from the
  previous snapshot, a pool absent from the current maps counts as depth 0, and an absent
  pool gets a zero row only if its previous value was not 0.
  The last part fails in \<open>diffAtKey\<close>: for a pool that is gone from the current maps it
  answers \<open>hasOld\<close>, whatever the old value. After \<open>update\<close> at height 4 with the
  depths 0 and 0 for \<open>BNB.BNB\<close>, \<open>update\<close> at height 5 with empty depth maps emits
  the row \<open>(5, BNB.BNB, 0, 0)\<close>, where the sibling \<open>diff\<close> reports no change for
  that key.
\<close>

theorem update_zero_row_for_zero_pool:
  "update (\<lambda>q. RowsAffected 1)
     \<lparr> assetE8DepthSnapshot = [], runeE8DepthSnapshot = [], snapshotHeight = 0 \<rparr> [] 4
     [(''BNB.BNB'', 0)] [(''BNB.BNB'', 0)]
   = (None,
      \<lparr> assetE8DepthSnapshot = [(''BNB.BNB'', 0)], runeE8DepthSnapshot = [(''BNB.BNB'', 0)],
        snapshotHeight = 4 \<rparr>,
      [(''BNB.BNB'', 0)])
   \<and> emittedRows
       \<lparr> assetE8DepthSnapshot = [(''BNB.BNB'', 0)], runeE8DepthSnapshot = [(''BNB.BNB'', 0)],
         snapshotHeight = 4 \<rparr> [(''BNB.BNB'', 0)] 5 [] []
     = [(5, ''BNB.BNB'', 0, 0)]
   \<and> diff [(''BNB.BNB'', 0)] [] ''BNB.BNB'' = None"
  by (simp add: update_def save_def emittedRows_def poolNames_def diffAtKey_def getId_def diff_def)

section \<open>Depth snapshots: when update fails\<close>

lemma update_fails_iff:
  "fst (update DBExec sm pim height a r) \<noteq> None \<longleftrightarrow>
     emittedRows sm pim height a r \<noteq> [] \<and>
     (DBExec (InsertAggregateStates (emittedRows sm pim height a r))
        \<noteq> RowsAffected (int (length (emittedRows sm pim height a r)))
      \<or> DBExec (InsertAggregateIdStates (emittedIdRows sm pim height a r))
        \<noteq> RowsAffected (int (length (emittedRows sm pim height a r))))"
  by (auto simp: update_def emittedRows_def emittedIdRows_def Let_def
           split: prod.splits exec_result.splits)

lemma update_mismatch:
  assumes "emittedRows sm pim height a r \<noteq> []"
    and "DBExec (InsertAggregateStates (emittedRows sm pim height a r)) = RowsAffected n"
    and "n \<noteq> int (length (emittedRows sm pim height a r))"
  shows "fst (update DBExec sm pim height a r)
           = Some (ErrNotAllSaved height n (length (emittedRows sm pim height a r)))"
  using assms
  by (auto simp: update_def emittedRows_def Let_def split: prod.splits)

lemma update_mismatch2:
  assumes "emittedRows sm pim height a r \<noteq> []"
    and "DBExec (InsertAggregateStates (emittedRows sm pim height a r))
           = RowsAffected (int (length (emittedRows sm pim height a r)))"
    and "DBExec (InsertAggregateIdStates (emittedIdRows sm pim height a r)) = RowsAffected n"
    and "n \<noteq> int (length (emittedRows sm pim height a r))"
  shows "fst (update DBExec sm pim height a r)
           = Some (Err2NotAllSaved height (length (emittedRows sm pim height a r)) n)"
  using assms
  by (auto simp: update_def emittedRows_def emittedIdRows_def Let_def split: prod.splits)

lemma pipelineTask_snapshot_error:
  assumes "fst (update DBExec (depthSnapshot st) (poolIdMapperr st) (BlockHeight b)
                  (recAssetE8DepthPerPool env (recordBlock d OnEvent (recorder (timeseries st)) b))
                  (recRuneE8DepthPerPool env (recordBlock d OnEvent (recorder (timeseries st)) b)))
             = Some err"
  shows "fst (pipelineTask DBExec env d OnEvent (b # bs) st) = Some (SnapshotFailed err)
         \<and> lastBlockTrack (timeseries (snd (pipelineTask DBExec env d OnEvent (b # bs) st)))
             = lastBlockTrack (timeseries st)
         \<and> pipelineTask DBExec env d OnEvent (b # bs) st
             = pipelineTask DBExec env d OnEvent [b] st"
  using assms
  by (auto simp: Let_def split: prod.splits option.splits)


text \<open>
  C7. \<open>update\<close> returns an error exactly when rows were emitted and one of the two
  inserts does not answer with an affected-row count equal to the number of emitted rows
  (the insert failed, its row count could not be read, or the count differs); when no
  pool changed no insert runs and \<open>update\<close> returns nil, and when both counts agree
  it returns nil. A count that differs gives the error that says so. In the pipeline
  task the error of \<open>update\<close> is fatal: the task exits with it, the block is not
  committed and the blocks after it are not processed.
\<close>

theorem update_error_fatal:
  "(fst (update DBExec sm pim height a r) \<noteq> None \<longleftrightarrow>
      emittedRows sm pim height a r \<noteq> [] \<and>
      (DBExec (InsertAggregateStates (emittedRows sm pim height a r))
         \<noteq> RowsAffected (int (length (emittedRows sm pim height a r)))
       \<or> DBExec (InsertAggregateIdStates (emittedIdRows sm pim height a r))
         \<noteq> RowsAffected (int (length (emittedRows sm pim height a r)))))
   \<and> (emittedRows sm pim height a r \<noteq> []
        \<and> DBExec (InsertAggregateStates (emittedRows sm pim height a r)) = RowsAffected n
        \<and> n \<noteq> int (length (emittedRows sm pim height a r))
      \<longrightarrow> fst (update DBExec sm pim height a r)
            = Some (ErrNotAllSaved height n (length (emittedRows sm pim height a r))))
   \<and> (emittedRows sm pim height a r \<noteq> []
        \<and> DBExec (InsertAggregateStates (emittedRows sm pim height a r))
            = RowsAffected (int (length (emittedRows sm pim height a r)))
        \<and> DBExec (InsertAggregateIdStates (emittedIdRows sm pim height a r)) = RowsAffected n
        \<and> n \<noteq> int (length (emittedRows sm pim height a r))
      \<longrightarrow> fst (update DBExec sm pim height a r)
            = Some (Err2NotAllSaved height (length (emittedRows sm pim height a r)) n))
   \<and> (fst (update DBExec (depthSnapshot st) (poolIdMapperr st) (BlockHeight b)
               (recAssetE8DepthPerPool env (recordBlock d OnEvent (recorder (timeseries st)) b))
               (recRuneE8DepthPerPool env (recordBlock d OnEvent (recorder (timeseries st)) b)))
          = Some err
      \<longrightarrow> fst (pipelineTask DBExec env d OnEvent (b # bs) st) = Some (SnapshotFailed err)
          \<and> lastBlockTrack (timeseries (snd (pipelineTask DBExec env d OnEvent (b # bs) st)))
              = lastBlockTrack (timeseries st)
          \<and> pipelineTask DBExec env d OnEvent (b # bs) st
              = pipelineTask DBExec env d OnEvent [b] st)"
  using update_fails_iff [of DBExec sm pim height a r]
        update_mismatch [of sm pim height a r DBExec n]
        update_mismatch2 [of sm pim height a r DBExec n]
        pipelineTask_snapshot_error [of DBExec st b env d OnEvent err bs]
  by blast

theorem update_error_fatal_witness:
  "fst (update (\<lambda>q. RowsAffected 0) (depthSnapshot stakedState) [] 1
          [(''BNB.BNB'', 100)] [(''BNB.BNB'', 1000)]) = Some (ErrNotAllSaved 1 0 1)
   \<and> fst (pipelineTask (\<lambda>q. RowsAffected 0) plainEnv strictStake (\<lambda>rec call. rec)
            [emptyBlock 1, emptyBlock 2] stakedState)
       = Some (SnapshotFailed (ErrNotAllSaved 1 0 1))
   \<and> lastBlockTrack (timeseries (snd (pipelineTask (\<lambda>q. RowsAffected 0) plainEnv strictStake
            (\<lambda>rec call. rec) [emptyBlock 1, emptyBlock 2] stakedState))) = None"
  using update_error_fatal
          [of "\<lambda>q. RowsAffected 0" "depthSnapshot stakedState" "[]" 1
              "[(''BNB.BNB'', 100)]" "[(''BNB.BNB'', 1000)]" 0
              stakedState "emptyBlock 1" plainEnv strictStake "\<lambda>rec call. rec"
              "ErrNotAllSaved 1 0 1" "[emptyBlock 2]"]
  by (simp add: stakedState_def plainEnv_def emptyBlock_def recordBlock_def Block_def
        emittedRows_def emittedIdRows_def poolNames_def diffAtKey_def getId_def
        update_def save_def Let_def)

section \<open>Node keys\<close>

lemma secpKeys_Cons: "m ++ secpKeys ((addr, secp, ed) # rs) = m(secp \<mapsto> addr) ++ secpKeys rs"
proof -
  have "m ++ secpKeys ((addr, secp, ed) # rs) = m ++ ([secp \<mapsto> addr] ++ secpKeys rs)"
    by (simp add: secpKeys_def)
  also have "\<dots> = (m ++ [secp \<mapsto> addr]) ++ secpKeys rs"
    by (rule map_add_assoc)
  also have "m ++ [secp \<mapsto> addr] = m(secp \<mapsto> addr)"
    by simp
  finally show ?thesis .
qed

lemma nodeKeysLoop_scanned:
  "fst (nodeKeysLoop (map (\<lambda>(addr, secp, ed). Inr [addr, secp, ed]) rs) m m lg) =
     Return (m ++ secpKeys rs, m ++ secpKeys rs) None"
proof (induction rs arbitrary: m lg)
  case Nil
  show ?case by (simp add: secpKeys_def)
next
  case (Cons r rs)
  obtain addr secp ed where r: "r = (addr, secp, ed)" by (cases r)
  have "\<exists>lg2. nodeKeysLoop (map (\<lambda>(addr, secp, ed). Inr [addr, secp, ed]) (r # rs)) m m lg
        = nodeKeysLoop (map (\<lambda>(addr, secp, ed). Inr [addr, secp, ed]) rs)
            (m(secp \<mapsto> addr)) (m(secp \<mapsto> addr)) lg2"
    by (simp add: r scan3_def Let_def del: fun_upd_apply) blast
  then obtain lg2 where step:
    "nodeKeysLoop (map (\<lambda>(addr, secp, ed). Inr [addr, secp, ed]) (r # rs)) m m lg
        = nodeKeysLoop (map (\<lambda>(addr, secp, ed). Inr [addr, secp, ed]) rs)
            (m(secp \<mapsto> addr)) (m(secp \<mapsto> addr)) lg2" ..
  have "fst (nodeKeysLoop (map (\<lambda>(addr, secp, ed). Inr [addr, secp, ed]) (r # rs)) m m lg)
        = fst (nodeKeysLoop (map (\<lambda>(addr, secp, ed). Inr [addr, secp, ed]) rs)
            (m(secp \<mapsto> addr)) (m(secp \<mapsto> addr)) lg2)"
    using step by (rule arg_cong)
  also have "\<dots> = Return (m(secp \<mapsto> addr) ++ secpKeys rs, m(secp \<mapsto> addr) ++ secpKeys rs) None"
    by (rule Cons.IH)
  finally show ?case
    unfolding r secpKeys_Cons .
qed

text \<open>
  C9. In \<open>NodesSecpAndEd\<close> the write to \<open>ed25519Addrs\<close> is keyed by the row's
  secp256k1 key: when every row scans, the returned \<open>ed25519Addrs\<close> maps each row's
  secp value to the node address (of the last row with that key), it equals
  \<open>secp256k1Addrs\<close>, and its keys are exactly the secp values of the rows.
\<close>

theorem NodesSecpAndEd_ed_keyed_by_secp:
  assumes "DBQuery (nodeKeysQ, [ArgInt (UnixNano t)]) =
             Inr (map (\<lambda>(addr, secp, ed). Inr [addr, secp, ed]) rs, err)"
  shows "\<exists>secp256k1Addrs ed25519Addrs.
           fst (NodesSecpAndEd DBQuery t) = Return (secp256k1Addrs, ed25519Addrs) None
           \<and> ed25519Addrs = map_of (rev (map (\<lambda>(addr, secp, ed). (secp, addr)) rs))
           \<and> ed25519Addrs = secp256k1Addrs
           \<and> dom ed25519Addrs = (\<lambda>(addr, secp, ed). secp) ` set rs"
proof -
  have "fst (NodesSecpAndEd DBQuery t) = Return (secpKeys rs, secpKeys rs) None"
    using assms nodeKeysLoop_scanned [of rs Map.empty "[]"] by (simp add: NodesSecpAndEd_def)
  moreover have "dom (secpKeys rs) = (\<lambda>(addr, secp, ed). secp) ` set rs"
    by (force simp: secpKeys_def dom_map_of_conv_image_fst image_image)
  ultimately show ?thesis by (simp add: secpKeys_def)
qed

theorem NodesSecpAndEd_ed_keyed_by_secp_witness:
  "\<exists>secp256k1Addrs ed25519Addrs.
     fst (NodesSecpAndEd (\<lambda>q. Inr ([Inr [''thor1'', ''secpA'', ''edA'']], None)) 0)
       = Return (secp256k1Addrs, ed25519Addrs) None
     \<and> ed25519Addrs ''secpA'' = Some ''thor1'' \<and> ed25519Addrs ''edA'' = None"
  using NodesSecpAndEd_ed_keyed_by_secp
          [of "\<lambda>q. Inr ([Inr [''thor1'', ''secpA'', ''edA'']], None)" 0
              "[(''thor1'', ''secpA'', ''edA'')]" None]
  by simp

section \<open>Point-in-time lookups\<close>

text \<open>
  C10. With a last committed block in place, each of \<open>Pools\<close>, \<open>PoolStatus\<close>,
  \<open>StakeAddrs\<close>, \<open>Mimir\<close> and \<open>StatusPerNode\<close> replaces a zero moment by the
  last block's timestamp (it behaves as for that moment, and its first query carries
  that timestamp); a non-zero moment after the last block's timestamp makes it return
  \<open>errBeyondLast\<close> with a nil result, no query having been issued.
\<close>

theorem lookup_moment_defaults_and_beyond_last:
  assumes "stored = Some track"
  shows "(IsZero moment \<longrightarrow>
            Pools DBQuery stored moment = Pools DBQuery stored (Timestamp track)
          \<and> PoolStatus DBQuery stored pool moment
              = PoolStatus DBQuery stored pool (Timestamp track)
          \<and> StakeAddrs DBQuery stored moment
              = StakeAddrs DBQuery stored (Timestamp track)
          \<and> Mimir DBQuery stored moment = Mimir DBQuery stored (Timestamp track)
          \<and> StatusPerNode DBQuery stored moment
              = StatusPerNode DBQuery stored (Timestamp track)
          \<and> snd (Pools DBQuery stored moment)
              = [(poolsQ, [ArgInt (UnixNano (Timestamp track))])]
          \<and> snd (PoolStatus DBQuery stored pool moment)
              = [(poolStatusQ, [ArgStr pool, ArgInt (UnixNano (Timestamp track))])]
          \<and> snd (StakeAddrs DBQuery stored moment)
              = [(stakeAddrsQ, [ArgInt (UnixNano (Timestamp track))])]
          \<and> snd (Mimir DBQuery stored moment)
              = [(mimirQ, [ArgInt (UnixNano (Timestamp track))])]
          \<and> take 1 (snd (StatusPerNode DBQuery stored moment))
              = [(newNodesQ, [ArgInt (UnixNano (Timestamp track))])])
       \<and> (\<not> IsZero moment \<and> Before (Timestamp track) moment \<longrightarrow>
            Pools DBQuery stored moment = (Return [] (Some errBeyondLast), [])
          \<and> PoolStatus DBQuery stored pool moment = (Return [] (Some errBeyondLast), [])
          \<and> StakeAddrs DBQuery stored moment = (Return [] (Some errBeyondLast), [])
          \<and> Mimir DBQuery stored moment = (Return Map.empty (Some errBeyondLast), [])
          \<and> StatusPerNode DBQuery stored moment
              = (Return Map.empty (Some errBeyondLast), []))"
proof -
  have P: "snd (Pools DBQuery (Some track) 0) = [(poolsQ, [ArgInt (UnixNano (Timestamp track))])]"
    by (simp add: Pools_def LastBlock_def IsZero_def Let_def split: sum.splits prod.splits)
  have S: "snd (PoolStatus DBQuery (Some track) pool 0)
           = [(poolStatusQ, [ArgStr pool, ArgInt (UnixNano (Timestamp track))])]"
    by (simp add: PoolStatus_def LastBlock_def IsZero_def Let_def
             split: sum.splits prod.splits list.splits)
  have A: "snd (StakeAddrs DBQuery (Some track) 0)
           = [(stakeAddrsQ, [ArgInt (UnixNano (Timestamp track))])]"
    by (simp add: StakeAddrs_def LastBlock_def IsZero_def Let_def split: sum.splits prod.splits)
  have M: "snd (Mimir DBQuery (Some track) 0) = [(mimirQ, [ArgInt (UnixNano (Timestamp track))])]"
    by (simp add: Mimir_def LastBlock_def IsZero_def Let_def split: sum.splits prod.splits)
  have N: "take 1 (snd (StatusPerNode DBQuery (Some track) 0))
           = [(newNodesQ, [ArgInt (UnixNano (Timestamp track))])]"
    by (simp add: StatusPerNode_def newNodes_def LastBlock_def IsZero_def Let_def
             split: sum.splits prod.splits go.splits option.splits)
  have Z: "IsZero moment \<longrightarrow>
            Pools DBQuery stored moment = Pools DBQuery stored (Timestamp track)
          \<and> PoolStatus DBQuery stored pool moment
              = PoolStatus DBQuery stored pool (Timestamp track)
          \<and> StakeAddrs DBQuery stored moment
              = StakeAddrs DBQuery stored (Timestamp track)
          \<and> Mimir DBQuery stored moment = Mimir DBQuery stored (Timestamp track)
          \<and> StatusPerNode DBQuery stored moment
              = StatusPerNode DBQuery stored (Timestamp track)"
    using assms
    by (simp add: Pools_def PoolStatus_def StakeAddrs_def Mimir_def StatusPerNode_def
          LastBlock_def IsZero_def Before_def Let_def)
  have B: "\<not> IsZero moment \<and> Before (Timestamp track) moment \<longrightarrow>
            Pools DBQuery stored moment = (Return [] (Some errBeyondLast), [])
          \<and> PoolStatus DBQuery stored pool moment = (Return [] (Some errBeyondLast), [])
          \<and> StakeAddrs DBQuery stored moment = (Return [] (Some errBeyondLast), [])
          \<and> Mimir DBQuery stored moment = (Return Map.empty (Some errBeyondLast), [])
          \<and> StatusPerNode DBQuery stored moment
              = (Return Map.empty (Some errBeyondLast), [])"
    using assms
    by (simp add: Pools_def PoolStatus_def StakeAddrs_def Mimir_def StatusPerNode_def
          LastBlock_def)
  have Q: "IsZero moment \<longrightarrow>
            snd (Pools DBQuery stored moment)
              = [(poolsQ, [ArgInt (UnixNano (Timestamp track))])]
          \<and> snd (PoolStatus DBQuery stored pool moment)
              = [(poolStatusQ, [ArgStr pool, ArgInt (UnixNano (Timestamp track))])]
          \<and> snd (StakeAddrs DBQuery stored moment)
              = [(stakeAddrsQ, [ArgInt (UnixNano (Timestamp track))])]
          \<and> snd (Mimir DBQuery stored moment)
              = [(mimirQ, [ArgInt (UnixNano (Timestamp track))])]
          \<and> take 1 (snd (StatusPerNode DBQuery stored moment))
              = [(newNodesQ, [ArgInt (UnixNano (Timestamp track))])]"
    using P S A M N assms by (simp add: IsZero_def)
  from Z B Q show ?thesis
    by blast
qed


theorem lookup_moment_defaults_and_beyond_last_witness:
  "Pools (\<lambda>q. Inr ([Inr [''BNB.BNB'']], None))
       (Some \<lparr> Height = 1, Timestamp = 100, Hash = [], AssetE8DepthPerPool = [],
               RuneE8DepthPerPool = [] \<rparr>) 101
     = (Return [] (Some errBeyondLast), [])
   \<and> Pools (\<lambda>q. Inr ([Inr [''BNB.BNB'']], None))
       (Some \<lparr> Height = 1, Timestamp = 100, Hash = [], AssetE8DepthPerPool = [],
               RuneE8DepthPerPool = [] \<rparr>) 0
     = Pools (\<lambda>q. Inr ([Inr [''BNB.BNB'']], None))
       (Some \<lparr> Height = 1, Timestamp = 100, Hash = [], AssetE8DepthPerPool = [],
               RuneE8DepthPerPool = [] \<rparr>) 100"
  using lookup_moment_defaults_and_beyond_last
          [of "Some \<lparr> Height = 1, Timestamp = 100, Hash = [], AssetE8DepthPerPool = [],
               RuneE8DepthPerPool = [] \<rparr>"
              "\<lparr> Height = 1, Timestamp = 100, Hash = [], AssetE8DepthPerPool = [],
               RuneE8DepthPerPool = [] \<rparr>" 101 "\<lambda>q. Inr ([Inr [''BNB.BNB'']], None)"]
        lookup_moment_defaults_and_beyond_last
          [of "Some \<lparr> Height = 1, Timestamp = 100, Hash = [], AssetE8DepthPerPool = [],
               RuneE8DepthPerPool = [] \<rparr>"
              "\<lparr> Height = 1, Timestamp = 100, Hash = [], AssetE8DepthPerPool = [],
               RuneE8DepthPerPool = [] \<rparr>" 0 "\<lambda>q. Inr ([Inr [''BNB.BNB'']], None)"]
  by (simp add: IsZero_def Before_def)

section \<open>Committing a height twice\<close>

text \<open>
  C5. When the \<open>block_log\<close> insert of \<open>CommitBlock\<close> reports zero rows affected,
  \<open>CommitBlock\<close> returns nil, has logged that the height was already committed, has
  applied \<open>ApplyOutboundQ\<close> and then \<open>ApplyFeeQ\<close> for that height and time, and has
  replaced the last-committed snapshot by the new one.
\<close>

theorem CommitBlock_already_committed:
  assumes "DBExec (commitQuery env st height timestamp hash) = RowsAffected 0"
  shows "\<exists>st'. CommitBlock DBExec env st height timestamp hash = (None, st')
           \<and> AlreadyCommitted height \<in> set (logged st')
           \<and> recorder st' =
               ApplyFeeQ env (ApplyOutboundQ env (recorder st) height timestamp) height timestamp
           \<and> lastBlockTrack st' = Some (commitTrack env st height timestamp hash)"
  using assms
  by (auto simp: CommitBlock_def commitQuery_def Let_def split: prod.splits option.splits)

theorem CommitBlock_already_committed_witness:
  "\<exists>st'. CommitBlock (\<lambda>q. RowsAffected 0)
            \<lparr> recAssetE8DepthPerPool = fst, recRuneE8DepthPerPool = snd,
              ApplyOutboundQ = (\<lambda>r h t. r), ApplyFeeQ = (\<lambda>r h t. r),
              gobEncode = (\<lambda>x. ([], None)) \<rparr>
            \<lparr> lastBlockTrack = None, recorder = ([(''BNB.BNB'', 100)], [(''BNB.BNB'', 1000)]),
              logged = [] \<rparr> 7 1000 [1, 2] = (None, st')
         \<and> logged st' = [AlreadyCommitted 7]
         \<and> map_option Height (lastBlockTrack st') = Some 7"
  using CommitBlock_already_committed
          [of "\<lambda>q. RowsAffected 0"
            "\<lparr> recAssetE8DepthPerPool = fst, recRuneE8DepthPerPool = snd,
              ApplyOutboundQ = (\<lambda>r h t. r), ApplyFeeQ = (\<lambda>r h t. r),
              gobEncode = (\<lambda>x. ([], None)) \<rparr>"
            "\<lparr> lastBlockTrack = None, recorder = ([(''BNB.BNB'', 100)], [(''BNB.BNB'', 1000)]),
              logged = [] \<rparr>" 7 1000 "[1, 2]"]
  by (auto simp: CommitBlock_def commitTrack_def Let_def)



section \<open>Demux: skipped events\<close>

lemma arm_error_no_call: "fst (arm load on as meta) = Some e \<Longrightarrow> snd (arm load on as meta) = []"
  by (simp add: arm_def split: sum.splits)

lemma event_error_no_call: "fst (event d ev m) = Some e \<Longrightarrow> snd (event d ev m) = []"
  unfolding event_def Let_def
  by (simp add: arm_error_no_call split: if_splits)

lemma blockEvents_eq:
  "blockEvents d m blockID txIndex eventIndex evs (calls, lg) =
     (calls @ concat (map (eventCalls d m) evs),
      lg @ concat (map (eventLog d m blockID txIndex) (enumerate eventIndex evs)))"
proof (induction evs arbitrary: eventIndex calls lg)
  case Nil
  show ?case by simp
next
  case (Cons ev evs)
  obtain err made where E: "event d ev m = (err, made)" by (cases "event d ev m")
  show ?case
  proof (cases err)
    case None
    with E Cons.IH [of "Suc eventIndex" "calls @ made" lg] show ?thesis
      by (simp add: eventCalls_def eventLog_def)
  next
    case (Some e)
    with E Cons.IH [of "Suc eventIndex" "calls @ made"
                       "lg @ [Skipped blockID txIndex eventIndex (Type ev) e]"]
    show ?thesis
      by (simp add: eventCalls_def eventLog_def)
  qed
qed

lemma blockTxs_eq:
  "blockTxs d m blockID txIndex txs (calls, lg) =
     (calls @ concat (map (\<lambda>tx. concat (map (eventCalls d m) (Events tx))) txs),
      lg @ concat (map (\<lambda>itx. concat (map (eventLog d m blockID (fst itx))
                                        (enumerate 0 (Events (snd itx)))))
                   (enumerate txIndex txs)))"
proof (induction txs arbitrary: txIndex calls lg)
  case Nil
  show ?case by simp
next
  case (Cons tx txs)
  show ?case
    by (simp add: blockEvents_eq Cons.IH)
qed

lemma event_unknown:
  "Type ev \<notin> {''add'', ''fee'', ''message'', ''outbound'', ''pool'', ''refund'', ''reserve'',
                    ''stake'', ''swap'', ''unstake''} \<Longrightarrow> event d ev m = (Some errEventType, [])"
  by (simp add: event_def)

text \<open>
  What \<open>Block\<close> does is what each event does on its own, in block order: a failing
  event neither stops the loops nor changes what the other events deliver.
\<close>

lemma Block_delivers:
  "Block d block meta =
     (concat (map (\<lambda>tx. concat (map (eventCalls d \<lparr>BlockTimestamp = HeaderTime (BlockHeader meta)\<rparr>)
                                   (Events tx)))
                  (TxsResults block)),
      concat (map (\<lambda>itx. concat (map (eventLog d \<lparr>BlockTimestamp = HeaderTime (BlockHeader meta)\<rparr>
                                         (BlockIDHash meta) (fst itx))
                                    (enumerate 0 (Events (snd itx)))))
                  (enumerate 0 (TxsResults block))))"
  by (simp add: Block_def blockTxs_eq Let_def)


lemma event_decode_failure:
  "Type ev = ''stake'' \<Longrightarrow> StakeLoadTendermint d (Attributes ev) = Inl e
   \<Longrightarrow> event d ev m = (Some (LoadError e), [])"
  by (simp add: event_def arm_def)

lemma arm_eq:
  "arm load on as m =
     (case load as of Inl msg \<Rightarrow> (Some (LoadError msg), []) | Inr v \<Rightarrow> (None, [on v m]))"
  by (simp add: arm_def)

lemma event_eq: "event d ev m = (eventFailure d ev, delivered d m ev)"
proof -
  consider "Type ev = ''add''" | "Type ev = ''fee''" | "Type ev = ''message''"
    | "Type ev = ''outbound''" | "Type ev = ''pool''" | "Type ev = ''refund''"
    | "Type ev = ''reserve''" | "Type ev = ''stake''" | "Type ev = ''swap''"
    | "Type ev = ''unstake''"
    | "Type ev \<notin> {''add'', ''fee'', ''message'', ''outbound'', ''pool'', ''refund'', ''reserve'',
                    ''stake'', ''swap'', ''unstake''}"
    by blast
  then show ?thesis
    by cases
      (simp_all add: event_def eventFailure_def delivered_def knownTypes_def arm_eq
         split: sum.splits)
qed


lemma eventCalls_delivered: "eventCalls d m = delivered d m"
  by (rule ext) (simp add: eventCalls_def event_eq)

lemma eventLog_skipLines: "eventLog d m blockID txIndex = skipLines d blockID txIndex"
  by (rule ext) (simp add: eventLog_def skipLines_def event_eq)

lemma Block_eq:
  "Block d block meta =
     (concat (map (\<lambda>tx. concat (map (delivered d \<lparr>BlockTimestamp = HeaderTime (BlockHeader meta)\<rparr>)
                                   (Events tx)))
                  (TxsResults block)),
      concat (map (\<lambda>itx. concat (map (skipLines d (BlockIDHash meta) (fst itx))
                                    (enumerate 0 (Events (snd itx)))))
                  (enumerate 0 (TxsResults block))))"
  by (simp add: Block_delivers eventCalls_delivered eventLog_skipLines)

lemma skipLines_count:
  "length (concat (map (skipLines d blockID txIndex) (enumerate eventIndex evs))) =
     length (filter (\<lambda>ev. eventFailure d ev \<noteq> None) evs)"
  by (induction evs arbitrary: eventIndex) (auto simp: skipLines_def)

lemma txSkipLines_count:
  "length (concat (map (\<lambda>itx. concat (map (skipLines d blockID (fst itx))
                                          (enumerate 0 (Events (snd itx)))))
                       (enumerate txIndex txs))) =
     length (filter (\<lambda>ev. eventFailure d ev \<noteq> None) (concat (map Events txs)))"
  by (induction txs arbitrary: txIndex) (simp_all add: skipLines_count)

text \<open>
  C6. When \<open>Demux.Block\<close> meets an event whose type is unknown, or whose attributes
  do not decode for a known type, it logs that event with its block id, transaction
  index, event index, type and cause, and skips only it: the listener receives, in
  block order, the record of every event that does not fail, those after the failing
  event included, which is what it receives for the block without that event; and the
  log has one line per failing event and no other. \<open>Block\<close> has no error result.
\<close>

theorem Block_skips_only_failing_event:
  assumes txs: "TxsResults block = txs1 @ tx # txs2"
    and evs: "Events tx = pre @ ev # post"
    and bad: "map_of (knownTypes d) (Type ev) = None \<and> e = errEventType
              \<or> (\<exists>load on msg. map_of (knownTypes d) (Type ev) = Some (load, on)
                    \<and> load (Attributes ev) = Inl msg \<and> e = LoadError msg)"
  shows "Block d block meta =
           (concat (map (\<lambda>tx. concat (map (delivered d \<lparr>BlockTimestamp = HeaderTime (BlockHeader meta)\<rparr>)
                                         (Events tx)))
                        (TxsResults block)),
            concat (map (\<lambda>itx. concat (map (skipLines d (BlockIDHash meta) (fst itx))
                                          (enumerate 0 (Events (snd itx)))))
                        (enumerate 0 (TxsResults block))))
         \<and> fst (Block d block meta) =
             concat (map (\<lambda>tx. concat (map (delivered d \<lparr>BlockTimestamp = HeaderTime (BlockHeader meta)\<rparr>)
                                         (Events tx))) txs1)
             @ concat (map (delivered d \<lparr>BlockTimestamp = HeaderTime (BlockHeader meta)\<rparr>) pre)
             @ concat (map (delivered d \<lparr>BlockTimestamp = HeaderTime (BlockHeader meta)\<rparr>) post)
             @ concat (map (\<lambda>tx. concat (map (delivered d \<lparr>BlockTimestamp = HeaderTime (BlockHeader meta)\<rparr>)
                                         (Events tx))) txs2)
         \<and> fst (Block d block meta) =
             fst (Block d (block\<lparr>TxsResults := txs1 @ tx\<lparr>Events := pre @ post\<rparr> # txs2\<rparr>) meta)
         \<and> Skipped (BlockIDHash meta) (length txs1) (length pre) (Type ev) e
             \<in> set (snd (Block d block meta))
         \<and> length (snd (Block d block meta)) =
             length (filter (\<lambda>ev. eventFailure d ev \<noteq> None) (concat (map Events (TxsResults block))))"
proof -
  let ?m = "\<lparr>BlockTimestamp = HeaderTime (BlockHeader meta)\<rparr>"
  have fail: "eventFailure d ev = Some e"
    using bad by (auto simp: eventFailure_def)
  have none: "delivered d ?m ev = []"
    using bad by (auto simp: delivered_def)
  have parts: "fst (Block d block meta) =
             concat (map (\<lambda>tx. concat (map (delivered d ?m) (Events tx))) txs1)
             @ concat (map (delivered d ?m) pre)
             @ concat (map (delivered d ?m) post)
             @ concat (map (\<lambda>tx. concat (map (delivered d ?m) (Events tx))) txs2)"
    by (simp add: Block_eq txs evs none)
  have calls: "fst (Block d block meta) =
           fst (Block d (block\<lparr>TxsResults := txs1 @ tx\<lparr>Events := pre @ post\<rparr> # txs2\<rparr>) meta)"
    by (simp add: Block_eq txs evs none)
  have "Skipped (BlockIDHash meta) (length txs1) (length pre) (Type ev) e
          \<in> set (skipLines d (BlockIDHash meta) (length txs1) (length pre, ev))"
    using fail by (simp add: skipLines_def)
  moreover have "(length pre, ev) \<in> set (enumerate 0 (Events tx))"
    by (simp add: evs enumerate_append_eq)
  moreover have "(length txs1, tx) \<in> set (enumerate 0 (TxsResults block))"
    by (simp add: txs enumerate_append_eq)
  ultimately have logged: "Skipped (BlockIDHash meta) (length txs1) (length pre) (Type ev) e
             \<in> set (snd (Block d block meta))"
    by (force simp: Block_eq)
  have count: "length (snd (Block d block meta)) =
             length (filter (\<lambda>ev. eventFailure d ev \<noteq> None) (concat (map Events (TxsResults block))))"
    by (simp add: Block_eq txSkipLines_count)
  from Block_eq [of d block meta] parts calls logged count show ?thesis
    by blast
qed


theorem Block_skips_only_failing_event_witness:
  "Block strictStake
     \<lparr> ResultsHeight = 1,
       TxsResults = [\<lparr> Events = [\<lparr> Type = ''stake'', Attributes = [] \<rparr>,
                                 \<lparr> Type = ''bogus'', Attributes = [] \<rparr>,
                                 \<lparr> Type = ''swap'', Attributes = [(''pool'', ''BNB.BNB'')] \<rparr>] \<rparr>] \<rparr>
     \<lparr> BlockIDHash = [], BlockHeader = \<lparr> HeaderHeight = 1, HeaderTime = 5 \<rparr> \<rparr>
   = ([OnSwap [(''pool'', ''BNB.BNB'')] \<lparr> BlockTimestamp = 5 \<rparr>],
      [Skipped [] 0 0 ''stake'' (LoadError ''no attributes''),
       Skipped [] 0 1 ''bogus'' errEventType])"
  using Block_skips_only_failing_event
    [of "\<lparr> ResultsHeight = 1,
       TxsResults = [\<lparr> Events = [\<lparr> Type = ''stake'', Attributes = [] \<rparr>,
                                 \<lparr> Type = ''bogus'', Attributes = [] \<rparr>,
                                 \<lparr> Type = ''swap'', Attributes = [(''pool'', ''BNB.BNB'')] \<rparr>] \<rparr>] \<rparr>"
        "[]"
        "\<lparr> Events = [\<lparr> Type = ''stake'', Attributes = [] \<rparr>,
                     \<lparr> Type = ''bogus'', Attributes = [] \<rparr>,
                     \<lparr> Type = ''swap'', Attributes = [(''pool'', ''BNB.BNB'')] \<rparr>] \<rparr>"
        "[]" "[]" "\<lparr> Type = ''stake'', Attributes = [] \<rparr>"
        "[\<lparr> Type = ''bogus'', Attributes = [] \<rparr>,
          \<lparr> Type = ''swap'', Attributes = [(''pool'', ''BNB.BNB'')] \<rparr>]"
        strictStake "LoadError ''no attributes''"
        "\<lparr> BlockIDHash = [], BlockHeader = \<lparr> HeaderHeight = 1, HeaderTime = 5 \<rparr> \<rparr>"]
  by (simp add: strictStake_def knownTypes_def delivered_def skipLines_def eventFailure_def)

section \<open>Follow: the heights sent\<close>

text \<open>
  C1. The claim: the blocks \<open>Follow\<close> sends have the heights offset, offset+1, offset+2,
  and so on, none skipped. \<open>fetchBlocks\<close> checks that the heights of a
  \<open>BlockchainInfo\<close> answer descend and lie in the requested range, not that they are
  consecutive. Against a node that answers with the heights 12 and 10, \<open>Follow\<close> from
  offset 10 sends the blocks 10 and 12 and returns the height 13 with \<open>ErrNoData\<close>:
  height 11 is skipped, and the height returned is not the offset plus the number of
  blocks sent, as the comment on \<open>Follow\<close> has it.
\<close>

theorem Follow_skips_height:
  "fst (Follow (Suc (Suc fuel)) gapNode () 10) = Some (FollowReturn 13 (Some ErrNoData))
   \<and> map BlockHeight (fst (snd (Follow (Suc (Suc fuel)) gapNode () 10))) = [10, 12]"
  by (simp add: Follow_def fetchBlocks_def gapNode_def Let_def hydrate_def validateResults_def)

section \<open>fetchBlocks: validation of the answers\<close>

lemma validateOrder_successively:
  "validateOrder hs = None \<longleftrightarrow> successively (\<lambda>previous height. sint height < sint previous) hs"
  by (induction hs rule: validateOrder.induct) auto

lemma validateOrder_None_iff:
  "validateOrder hs = None \<longleftrightarrow> sorted_wrt (\<lambda>previous height. sint height < sint previous) hs"
proof -
  have "transp (\<lambda>previous height :: int64. sint height < sint previous)"
    by (auto intro: transpI)
  then show ?thesis
    by (simp add: validateOrder_successively successively_conv_sorted_wrt)
qed

lemma descending_bounds:
  assumes "sorted_wrt (\<lambda>previous height :: int64. sint height < sint previous) hs"
    and "h \<in> set hs"
  shows "sint h \<le> sint (hd hs) \<and> sint (last hs) \<le> sint h"
  using assms
proof (induction hs)
  case Nil
  then show ?case by simp
next
  case (Cons x xs)
  show ?case
  proof (cases "xs = []")
    case True
    with Cons.prems show ?thesis by simp
  next
    case False
    then have "last xs \<in> set xs" by simp
    with Cons show ?thesis by (cases xs) force+
  qed
qed

lemma sint_add19_le: "sint (offset + 19 :: int64) \<le> sint offset + 19"
proof -
  have "- (2 ^ 63) \<le> sint offset" using sint_ge [of offset] by simp
  then have "- (2 ^ 63) \<le> sint offset + sint (19 :: int64)" by simp
  then have "signed_take_bit 63 (sint offset + sint (19 :: int64)) \<le> sint offset + sint (19 :: int64)"
    by (simp only: signed_take_bit_int_less_eq_self_iff)
  then show ?thesis by (simp add: sint_word_add)
qed

lemma setupBlocks_done:
  "setupBlocks c s room ms = (Some (Inr done), s') \<Longrightarrow> done = ms"
proof (induction ms arbitrary: s room "done" s')
  case Nil
  then show ?case by simp
next
  case (Cons m ms)
  then show ?case
    by (auto split: nat.splits prod.splits option.splits sum.splits)
qed

lemma hydrate_nth:
  "i < length ms \<Longrightarrow> hydrate ms res ! i =
     \<lparr> BlockHeight = HeaderHeight (BlockHeader (ms ! i)), BlockTime = HeaderTime (BlockHeader (ms ! i)),
       BlockHash = BlockIDHash (ms ! i), Results = res i \<rparr>"
  by (simp add: hydrate_def nth_enumerate_eq)

lemma validateResults_mismatch:
  assumes "i < length ms"
    and "ResultsHeight (res i) \<noteq> HeaderHeight (BlockHeader (ms ! i))"
  shows "\<exists>err. validateResults (hydrate ms res) = Some err"
proof -
  have len: "length (hydrate ms res) = length ms" by (simp add: hydrate_def)
  have "hydrate ms res ! i \<in> set (hydrate ms res)"
    using assms(1) len by (metis nth_mem)
  moreover have "ResultsHeight (Results (hydrate ms res ! i)) \<noteq> BlockHeight (hydrate ms res ! i)"
    using assms by (simp add: hydrate_nth)
  ultimately have "filter (\<lambda>b. ResultsHeight (Results b) \<noteq> BlockHeight b) (hydrate ms res) \<noteq> []"
    by (auto simp: filter_empty_conv)
  then show ?thesis
    by (simp add: validateResults_def split: list.splits)
qed


lemma followLoop_fetch_error:
  assumes "fetchBlocks c s 20 offset = (Some ([], Some err), s')"
    and "sint offset \<le> sint latest"
  shows "followLoop (Suc fuel) c s latest offset sent =
           (Some (FollowReturn offset (Some err)), sent, s')"
  using assms by (simp add: Let_def)

lemma validateResults_Some:
  assumes "validateResults blocks = Some err"
  shows "\<exists>requested got. err = ErrResults requested got \<and> got \<noteq> requested"
proof -
  obtain b rest where f: "filter (\<lambda>b. ResultsHeight (Results b) \<noteq> BlockHeight b) blocks = b # rest"
    and err: "err = ErrResults (BlockHeight b) (ResultsHeight (Results b))"
    using assms by (auto simp: validateResults_def split: list.splits)
  have "b \<in> set (filter (\<lambda>b. ResultsHeight (Results b) \<noteq> BlockHeight b) blocks)"
    by (simp add: f)
  then have "ResultsHeight (Results b) \<noteq> BlockHeight b" by simp
  with err show ?thesis by blast
qed

lemma validateOrder_pair:
  "validateOrder hs = Some (previous, height) \<Longrightarrow> sint previous \<le> sint height"
  by (induction hs rule: validateOrder.induct) (auto split: if_splits)

text \<open>
  C4. When \<open>BlockchainInfo\<close> answers with block metas that are not in strictly
  descending height order, or one of whose heights lies outside
  \<open>[offset, offset + 19]\<close>, or when the batch was enqueued and sent and one of its
  answers carries another height than the one requested, \<open>fetchBlocks\<close> returns an
  error and no blocks. The error is one of the three validation errors (the order error
  when the order is broken, the range error when the order holds and a height is out of
  range), never one of the sentinels \<open>ErrNoData\<close> and \<open>ErrQuit\<close> of a normal exit.
  \<open>Follow\<close>, in the round that gets this error, returns it at once with the offset
  unchanged, nothing more sent and no further request.
\<close>

theorem fetchBlocks_validation_fatal:
  fixes metas :: "BlockMeta list"
  defines "hs \<equiv> map (\<lambda>m. HeaderHeight (BlockHeader m)) metas"
  assumes info: "BlockchainInfo c s offset (offset + 19) = (Inr metas, s1)"
    and bad: "\<not> sorted_wrt (\<lambda>previous height. sint height < sint previous) hs
              \<or> (\<exists>h \<in> set hs. sint h < sint offset \<or> sint offset + 19 < sint h)
              \<or> (\<exists>s2 res s3 i.
                    setupBlocks c s1 20 (rev metas) = (Some (Inr (rev metas)), s2)
                    \<and> signClientTrigger c s2 = (Inr res, s3)
                    \<and> i < length metas
                    \<and> ResultsHeight (res i) \<noteq> HeaderHeight (BlockHeader (rev metas ! i)))"
  shows "\<exists>err s'. fetchBlocks c s 20 offset = (Some ([], Some err), s')
           \<and> err \<noteq> ErrNoData \<and> err \<noteq> ErrQuit
           \<and> ((\<exists>previous height. err = ErrOrder offset (offset + 19) previous height
                   \<and> sint previous \<le> sint height)
                \<or> err = ErrRange offset (offset + 19) (last hs) (hd hs)
                \<or> (\<exists>requested got. err = ErrResults requested got \<and> got \<noteq> requested))
           \<and> (\<not> sorted_wrt (\<lambda>previous height. sint height < sint previous) hs
                \<longrightarrow> (\<exists>previous height. err = ErrOrder offset (offset + 19) previous height))
           \<and> (sorted_wrt (\<lambda>previous height. sint height < sint previous) hs
                \<and> (\<exists>h \<in> set hs. sint h < sint offset \<or> sint offset + 19 < sint h)
                \<longrightarrow> err = ErrRange offset (offset + 19) (last hs) (hd hs))
           \<and> (\<forall>fuel latest sent. sint offset \<le> sint latest \<longrightarrow>
                 followLoop (Suc fuel) c s latest offset sent
                   = (Some (FollowReturn offset (Some err)), sent, s'))"
proof -
  let ?sorted = "sorted_wrt (\<lambda>previous height. sint height < sint previous) hs"
  let ?out = "\<exists>h \<in> set hs. sint h < sint offset \<or> sint offset + 19 < sint h"
  have ne: "metas \<noteq> []"
    using bad by (auto simp: hs_def)
  then have hne: "hs \<noteq> []" by (simp add: hs_def)
  have fetch: "\<exists>err s'. fetchBlocks c s 20 offset = (Some ([], Some err), s')
      \<and> ((\<exists>previous height. err = ErrOrder offset (offset + 19) previous height
                   \<and> sint previous \<le> sint height)
                \<or> err = ErrRange offset (offset + 19) (last hs) (hd hs)
                \<or> (\<exists>requested got. err = ErrResults requested got \<and> got \<noteq> requested))
      \<and> (\<not> ?sorted \<longrightarrow> (\<exists>previous height. err = ErrOrder offset (offset + 19) previous height))
      \<and> (?sorted \<and> ?out \<longrightarrow> err = ErrRange offset (offset + 19) (last hs) (hd hs))"
  proof (cases "validateOrder hs")
    case (Some ph)
    obtain previous height where ph: "ph = (previous, height)" by (cases ph)
    have unsorted: "\<not> ?sorted"
      using Some by (simp add: validateOrder_None_iff [symmetric])
    have le: "sint previous \<le> sint height"
      using Some ph validateOrder_pair by blast
    have "fetchBlocks c s 20 offset
            = (Some ([], Some (ErrOrder offset (offset + 19) previous height)), s1)"
      using info ne Some ph by (simp add: fetchBlocks_def Let_def hs_def)
    with unsorted le show ?thesis by auto
  next
    case None
    then have sorted: ?sorted
      by (simp add: validateOrder_None_iff)
    show ?thesis
    proof (cases "sint (hd hs) > sint (offset + 19) \<or> sint (last hs) < sint offset")
      case True
      have "fetchBlocks c s 20 offset
              = (Some ([], Some (ErrRange offset (offset + 19) (last hs) (hd hs))), s1)"
        using info ne None True by (simp add: fetchBlocks_def Let_def hs_def)
      with sorted show ?thesis by auto
    next
      case False
      have inrange: "sint offset \<le> sint h \<and> sint h \<le> sint offset + 19" if "h \<in> set hs" for h
        using descending_bounds [OF sorted that] False sint_add19_le [of offset] by linarith
      then have notout: "\<not> ?out" by force
      obtain s2 res s3 i where
        enq: "setupBlocks c s1 20 (rev metas) = (Some (Inr (rev metas)), s2)"
        and trig: "signClientTrigger c s2 = (Inr res, s3)"
        and i: "i < length metas"
        and mism: "ResultsHeight (res i) \<noteq> HeaderHeight (BlockHeader (rev metas ! i))"
        using bad sorted notout by blast
      obtain err where v: "validateResults (hydrate (rev metas) res) = Some err"
        using validateResults_mismatch [of i "rev metas" res] i mism by auto
      then have "fetchBlocks c s 20 offset = (Some ([], Some err), s3)"
        using info ne None False enq trig
        by (simp add: fetchBlocks_def Let_def hs_def)
      with sorted notout validateResults_Some [OF v] show ?thesis by auto
    qed
  qed
  then obtain err s' where F: "fetchBlocks c s 20 offset = (Some ([], Some err), s')"
    and shape: "(\<exists>previous height. err = ErrOrder offset (offset + 19) previous height
                   \<and> sint previous \<le> sint height)
                \<or> err = ErrRange offset (offset + 19) (last hs) (hd hs)
                \<or> (\<exists>requested got. err = ErrResults requested got \<and> got \<noteq> requested)"
    and ord: "\<not> ?sorted \<longrightarrow> (\<exists>previous height. err = ErrOrder offset (offset + 19) previous height)"
    and rng: "?sorted \<and> ?out \<longrightarrow> err = ErrRange offset (offset + 19) (last hs) (hd hs)"
    by blast
  have sentinel: "err \<noteq> ErrNoData \<and> err \<noteq> ErrQuit"
    using shape by auto
  have stop: "\<forall>fuel latest sent. sint offset \<le> sint latest \<longrightarrow>
          followLoop (Suc fuel) c s latest offset sent
            = (Some (FollowReturn offset (Some err)), sent, s')"
    using followLoop_fetch_error [OF F] by simp
  from F sentinel shape ord rng stop show ?thesis
    by blast
qed

theorem fetchBlocks_validation_fatal_witness:
  "fetchBlocks unorderedNode () 20 10 = (Some ([], Some (ErrOrder 10 29 10 12)), ())
   \<and> fetchBlocks outOfRangeNode () 20 10 = (Some ([], Some (ErrRange 10 29 40 40)), ())
   \<and> fetchBlocks mismatchNode () 20 10 = (Some ([], Some (ErrResults 12 10)), ())
   \<and> Follow 1 outOfRangeNode () 10 = (Some (FollowReturn 10 (Some (ErrRange 10 29 40 40))), [], ())"
  using fetchBlocks_validation_fatal
          [of unorderedNode "()" 10
              "[\<lparr> BlockIDHash = [], BlockHeader = \<lparr> HeaderHeight = 10, HeaderTime = 1 \<rparr> \<rparr>,
                \<lparr> BlockIDHash = [], BlockHeader = \<lparr> HeaderHeight = 12, HeaderTime = 2 \<rparr> \<rparr>]" "()"]
        fetchBlocks_validation_fatal
          [of outOfRangeNode "()" 10
              "[\<lparr> BlockIDHash = [], BlockHeader = \<lparr> HeaderHeight = 40, HeaderTime = 1 \<rparr> \<rparr>]" "()"]
        fetchBlocks_validation_fatal
          [of mismatchNode "()" 10
              "[\<lparr> BlockIDHash = [], BlockHeader = \<lparr> HeaderHeight = 12, HeaderTime = 2 \<rparr> \<rparr>,
                \<lparr> BlockIDHash = [], BlockHeader = \<lparr> HeaderHeight = 10, HeaderTime = 1 \<rparr> \<rparr>]" "()"]
  by (simp add: unorderedNode_def outOfRangeNode_def mismatchNode_def gapNode_def fetchBlocks_def
        Follow_def Let_def hydrate_def validateResults_def)

section \<open>Ratios in the v1 API\<close>

text \<open>
  C8. The claim: no monetary amount is computed in floating point, and every ratio
  rendered for JSON is computed exactly, the conversion to a double being the last
  step. \<open>serveV1Assets\<close> converts both depths to \<open>float64\<close> and divides the doubles.
  For the rune depth \<open>2^53 + 1\<close> and the asset depth 3 the exact ratio is
  3002399751580331, a double, and this is what \<open>poolsAsset\<close> renders as \<open>price\<close>
  through \<open>big.Rat\<close>; \<open>serveV1Assets\<close> renders 3002399751580330.5 as \<open>priceRune\<close>,
  the rune depth having been rounded to \<open>2^53\<close> before the division.
\<close>

theorem serveV1Assets_priceRune_rounds_early:
  "priceRune [(''BNB.BNB'', 3)] [(''BNB.BNB'', 9007199254740993)] ''BNB.BNB''
     = Some (6004799503160661 / 2)
   \<and> price [(''BNB.BNB'', 3)] [(''BNB.BNB'', 9007199254740993)] ''BNB.BNB''
     = Some 3002399751580331
   \<and> NewRat 9007199254740993 3 = 3002399751580331
   \<and> float64 9007199254740993 = 9007199254740992"
  by code_simp

end
